theory Spec2Isabelle
  imports Main
begin

section \<open>Data model\<close>

text \<open>
  The room an incoming chat message is served by is chosen by the middlewares
  \<open>resolve_room\<close> (packages/core/src/middlewares/resolve_room.ts) and \<open>check_room\<close>
  (packages/core/src/middlewares/check_room.ts); \<open>read_chat_message\<close> turns the message
  elements into text before them. Each handler is embedded as a function from its inputs
  (configuration, session, context and the answers of the room repository) to its return
  value, the context as it leaves it, and the trace of the effects it performed.

  Strings are lists of bytes, the UTF-8 encoding of the text: the Chinese literals of the
  source are spelled out byte by byte.
\<close>

datatype visibility = Private | Public | Template_clone

record ConversationRoom =
  roomId :: int
  roomName :: string
  conversationId :: string
  roomMasterId :: string
  visibility :: visibility
  preset :: string
  model :: string
  chatMode :: string
  autoUpdate :: bool

record Config =
  allowChatWithRoomName :: bool
  allowPrivate :: bool
  privateChatWithoutCommand :: bool
  allowAtReply :: bool
  botName :: string
  isNickname :: bool
  autoCreateRoomFromUser :: bool
  defaultPreset :: string
  defaultModel :: string
  defaultChatMode :: string

text \<open>A message element \<open>h\<close>: its \<open>type\<close> and its \<open>attrs\<close> dictionary.\<close>

record Element =
  elem_type :: string
  attrs :: "string \<rightharpoonup> string"

text \<open>
  \<open>context.message\<close> is typed \<open>string | h[]\<close>. A JavaScript string is either a primitive
  or a \<open>String\<close> object; only the latter passes \<open>instanceof String\<close>.
\<close>

datatype message = MsgString string | MsgStringObject string | MsgElements "Element list"

record Guild =
  guild_name :: "string option"
  guild_id :: string

text \<open>
  The session: \<open>appel\<close> is \<open>session.stripped.appel\<close>, \<open>guild\<close> is \<open>session.event.guild\<close>
  (\<open>None\<close> when the event carries no guild) and \<open>elements\<close> is \<open>session.elements\<close>.
\<close>

record Session =
  isDirect :: bool
  userId :: string
  username :: "string option"
  appel :: bool
  content :: string
  guild :: "Guild option"
  elements :: "Element list"

text \<open>
  The per-message context: \<open>command\<close>, \<open>message\<close> and the entries of \<open>context.options\<close>
  that the three handlers read or write (\<open>options.room_resolve.name\<close>, \<open>options.room\<close>,
  \<open>options.inputMessage\<close>, \<open>options.message\<close>).
\<close>

record Context =
  command :: "string option"
  message :: "message option"
  opt_room_resolve_name :: "string option"
  opt_room :: "ConversationRoom option"
  opt_inputMessage :: "string option"
  opt_message :: "string option"

datatype ChainMiddlewareRunStatus = SKIPPED | STOP | CONTINUE

datatype error = TypeError

text \<open>
  The room repository (chains/rooms), the uuid generator, \<open>Math.random\<close> and the message
  transformer are collaborators outside these files. Within one run of a handler every
  read of the repository comes before the first write, so the answers are parameters of
  the run:
  \<^item> \<open>queryJoinedConversationRoom name\<close>: the answer for the name (or no name) asked;
  \<^item> \<open>getAllJoinedConversationRoom\<close>, \<open>queryPublicConversationRoom\<close>,
    \<open>getTemplateConversationRoom\<close>, \<open>getMaxConversationRoomId\<close>: the answers;
  \<^item> \<open>uuidv4\<close>: the identifier generated in this run;
  \<^item> \<open>random_floor n\<close>: the value of \<open>Math.floor(Math.random() * n)\<close> in this run;
  \<^item> \<open>transform\<close>: the message transformer applied to the text handed to \<open>h.text\<close>.
\<close>

record World =
  queryJoinedConversationRoom :: "string option \<Rightarrow> ConversationRoom option"
  getAllJoinedConversationRoom :: "ConversationRoom list"
  queryPublicConversationRoom :: "ConversationRoom option"
  getTemplateConversationRoom :: "ConversationRoom option"
  getMaxConversationRoomId :: int
  uuidv4 :: string
  random_floor :: "nat \<Rightarrow> nat"
  transform :: "string list \<Rightarrow> string"

text \<open>
  The effects, in the order performed. \<open>switchConversationRoom\<close> is called with a room
  id by \<open>resolve_room\<close> and with a room name by \<open>check_room\<close>. Every event that takes a
  room holds the room as it is at the call.
\<close>

datatype room_key = ById int | ByName string

datatype event =
    SwitchConversationRoom room_key
  | CreateConversationRoom ConversationRoom
  | ClearCache ConversationRoom
  | Upsert ConversationRoom
  | ClearChatHistory ConversationRoom
  | Send string
  | LogSuccess string
  | LogDebug string

subsection \<open>The literals of the source\<close>

definition txt_for_user :: string where
  \<comment> \<open>the log prefix, in English: for user\<close>
  "txt_for_user =
   [CHR 0xE5, CHR 0xB7, CHR 0xB2, CHR 0xE4, CHR 0xB8, CHR 0xBA, CHR 0xE7, CHR 0x94,
    CHR 0xA8, CHR 0xE6, CHR 0x88, CHR 0xB7, CHR 0x20]"

definition txt_auto_switched :: string where
  \<comment> \<open>in English: switched automatically to room\<close>
  "txt_auto_switched =
   [CHR 0x20, CHR 0xE8, CHR 0x87, CHR 0xAA, CHR 0xE5, CHR 0x8A, CHR 0xA8, CHR 0xE5,
    CHR 0x88, CHR 0x87, CHR 0xE6, CHR 0x8D, CHR 0xA2, CHR 0xE5, CHR 0x88, CHR 0xB0,
    CHR 0xE6, CHR 0x88, CHR 0xBF, CHR 0xE9, CHR 0x97, CHR 0xB4, CHR 0x20]"

definition txt_auto_switched_public :: string where
  \<comment> \<open>in English: switched automatically to public room\<close>
  "txt_auto_switched_public =
   [CHR 0x20, CHR 0xE8, CHR 0x87, CHR 0xAA, CHR 0xE5, CHR 0x8A, CHR 0xA8, CHR 0xE5,
    CHR 0x88, CHR 0x87, CHR 0xE6, CHR 0x8D, CHR 0xA2, CHR 0xE5, CHR 0x88, CHR 0xB0,
    CHR 0xE5, CHR 0x85, CHR 0xAC, CHR 0xE5, CHR 0x85, CHR 0xB1, CHR 0xE6, CHR 0x88,
    CHR 0xBF, CHR 0xE9, CHR 0x97, CHR 0xB4, CHR 0x20]"

definition txt_auto_created :: string where
  \<comment> \<open>in English: created automatically room\<close>
  "txt_auto_created =
   [CHR 0x20, CHR 0xE8, CHR 0x87, CHR 0xAA, CHR 0xE5, CHR 0x8A, CHR 0xA8, CHR 0xE5,
    CHR 0x88, CHR 0x9B, CHR 0xE5, CHR 0xBB, CHR 0xBA, CHR 0xE6, CHR 0x88, CHR 0xBF,
    CHR 0xE9, CHR 0x97, CHR 0xB4, CHR 0x20]"

definition txt_auto_created_clone :: string where
  \<comment> \<open>in English: created automatically template clone room\<close>
  "txt_auto_created_clone =
   [CHR 0x20, CHR 0xE8, CHR 0x87, CHR 0xAA, CHR 0xE5, CHR 0x8A, CHR 0xA8, CHR 0xE5,
    CHR 0x88, CHR 0x9B, CHR 0xE5, CHR 0xBB, CHR 0xBA, CHR 0xE6, CHR 0xA8, CHR 0xA1,
    CHR 0xE7, CHR 0x89, CHR 0x88, CHR 0xE5, CHR 0x85, CHR 0x8B, CHR 0xE9, CHR 0x9A,
    CHR 0x86, CHR 0xE6, CHR 0x88, CHR 0xBF, CHR 0xE9, CHR 0x97, CHR 0xB4, CHR 0x20]"

definition txt_full_stop :: string where
  \<comment> \<open>the ideographic full stop U+3002\<close>
  "txt_full_stop =
   [CHR 0xE3, CHR 0x80, CHR 0x82]"

definition txt_room_suffix :: string where
  \<comment> \<open>the room-name suffix, in English: 's room\<close>
  "txt_room_suffix =
   [CHR 0x20, CHR 0xE7, CHR 0x9A, CHR 0x84, CHR 0xE6, CHR 0x88, CHR 0xBF, CHR 0xE9,
    CHR 0x97, CHR 0xB4]"

definition txt_clone_room_suffix :: string where
  \<comment> \<open>the room-name suffix, in English: 's template clone room\<close>
  "txt_clone_room_suffix =
   [CHR 0x20, CHR 0xE7, CHR 0x9A, CHR 0x84, CHR 0xE6, CHR 0xA8, CHR 0xA1, CHR 0xE7,
    CHR 0x89, CHR 0x88, CHR 0xE5, CHR 0x85, CHR 0x8B, CHR 0xE9, CHR 0x9A, CHR 0x86,
    CHR 0xE6, CHR 0x88, CHR 0xBF, CHR 0xE9, CHR 0x97, CHR 0xB4]"

definition txt_template_detected :: string where
  \<comment> \<open>in English: detected that template room\<close>
  "txt_template_detected =
   [CHR 0xE6, CHR 0xA3, CHR 0x80, CHR 0xE6, CHR 0xB5, CHR 0x8B, CHR 0xE5, CHR 0x88,
    CHR 0xB0, CHR 0xE6, CHR 0xA8, CHR 0xA1, CHR 0xE7, CHR 0x89, CHR 0x88, CHR 0xE6,
    CHR 0x88, CHR 0xBF, CHR 0xE9, CHR 0x97, CHR 0xB4, CHR 0x20]"

definition txt_config_changed :: string where
  \<comment> \<open>in English: has a changed configuration, written to the database.\<close>
  "txt_config_changed =
   [CHR 0x20, CHR 0xE7, CHR 0x9A, CHR 0x84, CHR 0xE9, CHR 0x85, CHR 0x8D, CHR 0xE7,
    CHR 0xBD, CHR 0xAE, CHR 0xE5, CHR 0x8F, CHR 0x98, CHR 0xE6, CHR 0x9B, CHR 0xB4,
    CHR 0xEF, CHR 0xBC, CHR 0x8C, CHR 0xE5, CHR 0xB7, CHR 0xB2, CHR 0xE6, CHR 0x9B,
    CHR 0xB4, CHR 0xE6, CHR 0x96, CHR 0xB0, CHR 0xE5, CHR 0x88, CHR 0xB0, CHR 0xE6,
    CHR 0x95, CHR 0xB0, CHR 0xE6, CHR 0x8D, CHR 0xAE, CHR 0xE5, CHR 0xBA, CHR 0x93,
    CHR 0xE3, CHR 0x80, CHR 0x82]"

definition txt_random_switched :: string where
  \<comment> \<open>in English: you named no room, switched you at random to room\<close>
  "txt_random_switched =
   [CHR 0xE6, CHR 0xA3, CHR 0x80, CHR 0xE6, CHR 0xB5, CHR 0x8B, CHR 0xE5, CHR 0x88,
    CHR 0xB0, CHR 0xE4, CHR 0xBD, CHR 0xA0, CHR 0xE6, CHR 0xB2, CHR 0xA1, CHR 0xE6,
    CHR 0x9C, CHR 0x89, CHR 0xE6, CHR 0x8C, CHR 0x87, CHR 0xE5, CHR 0xAE, CHR 0x9A,
    CHR 0xE6, CHR 0x88, CHR 0xBF, CHR 0xE9, CHR 0x97, CHR 0xB4, CHR 0xEF, CHR 0xBC,
    CHR 0x8C, CHR 0xE5, CHR 0xB7, CHR 0xB2, CHR 0xE4, CHR 0xB8, CHR 0xBA, CHR 0xE4,
    CHR 0xBD, CHR 0xA0, CHR 0xE9, CHR 0x9A, CHR 0x8F, CHR 0xE6, CHR 0x9C, CHR 0xBA,
    CHR 0xE5, CHR 0x88, CHR 0x87, CHR 0xE6, CHR 0x8D, CHR 0xA2, CHR 0xE5, CHR 0x88,
    CHR 0xB0, CHR 0xE6, CHR 0x88, CHR 0xBF, CHR 0xE9, CHR 0x97, CHR 0xB4, CHR 0x20]"

definition txt_no_joined_room :: string where
  \<comment> \<open>in English: you have not joined any room yet, join a room first.\<close>
  "txt_no_joined_room =
   [CHR 0xE4, CHR 0xBD, CHR 0xA0, CHR 0xE8, CHR 0xBF, CHR 0x98, CHR 0xE6, CHR 0xB2,
    CHR 0xA1, CHR 0xE6, CHR 0x9C, CHR 0x89, CHR 0xE5, CHR 0x8A, CHR 0xA0, CHR 0xE5,
    CHR 0x85, CHR 0xA5, CHR 0xE4, CHR 0xBB, CHR 0xBB, CHR 0xE4, CHR 0xBD, CHR 0x95,
    CHR 0xE6, CHR 0x88, CHR 0xBF, CHR 0xE9, CHR 0x97, CHR 0xB4, CHR 0xEF, CHR 0xBC,
    CHR 0x8C, CHR 0xE8, CHR 0xAF, CHR 0xB7, CHR 0xE5, CHR 0x85, CHR 0x88, CHR 0xE5,
    CHR 0x8A, CHR 0xA0, CHR 0xE5, CHR 0x85, CHR 0xA5, CHR 0xE6, CHR 0x88, CHR 0xBF,
    CHR 0xE9, CHR 0x97, CHR 0xB4, CHR 0xE3, CHR 0x80, CHR 0x82]"

definition txt_not_joined :: string where
  \<comment> \<open>in English: you have not joined this room, first join room\<close>
  "txt_not_joined =
   [CHR 0xE4, CHR 0xBD, CHR 0xA0, CHR 0xE6, CHR 0xB2, CHR 0xA1, CHR 0xE6, CHR 0x9C,
    CHR 0x89, CHR 0xE5, CHR 0x8A, CHR 0xA0, CHR 0xE5, CHR 0x85, CHR 0xA5, CHR 0xE6,
    CHR 0xAD, CHR 0xA4, CHR 0xE6, CHR 0x88, CHR 0xBF, CHR 0xE9, CHR 0x97, CHR 0xB4,
    CHR 0xEF, CHR 0xBC, CHR 0x8C, CHR 0xE8, CHR 0xAF, CHR 0xB7, CHR 0xE5, CHR 0x85,
    CHR 0x88, CHR 0xE5, CHR 0x8A, CHR 0xA0, CHR 0xE5, CHR 0x85, CHR 0xA5, CHR 0xE6,
    CHR 0x88, CHR 0xBF, CHR 0xE9, CHR 0x97, CHR 0xB4, CHR 0x20]"

subsection \<open>Helpers for JavaScript's arrays and strings\<close>

text \<open>\<open>xs[i]\<close>: \<open>undefined\<close> (here \<open>None\<close>) when the index is out of range.\<close>

fun index_opt :: "'a list \<Rightarrow> nat \<Rightarrow> 'a option" where
  "index_opt [] i = None"
| "index_opt (x # xs) 0 = Some x"
| "index_opt (x # xs) (Suc i) = index_opt xs i"

text \<open>\<open>s.split(' ')\<close>: the pieces between single spaces; never the empty array.\<close>

fun split_space :: "string \<Rightarrow> string list" where
  "split_space [] = [[]]"
| "split_space (c # cs) =
     (if c = CHR '' '' then [] # split_space cs
      else (case split_space cs of
              [] \<Rightarrow> [[c]]
            | w # ws \<Rightarrow> (c # w) # ws))"

text \<open>\<open>s.startsWith(p)\<close>.\<close>

fun startsWith :: "string \<Rightarrow> string \<Rightarrow> bool" where
  "startsWith s [] = True"
| "startsWith [] (p # ps) = False"
| "startsWith (c # cs) (p # ps) = (c = p \<and> startsWith cs ps)"

subsection \<open>JavaScript's numbers\<close>

text \<open>
  A room id is a JavaScript number, an IEEE 754 double; the ids here are integers. The
  sum of two doubles is the exact sum rounded to the nearest double, ties to the even
  significand. A double holds 53 significant bits: an integer \<open>m\<close> below \<open>2^53\<close> in
  magnitude is held as it is, a larger one is rounded to a multiple of \<open>2^e\<close>, where \<open>e\<close>
  is the number of bits that \<open>m\<close> has beyond 53. The arguments of \<open>js_add\<close> are values
  of numbers, that is, integers that a double holds; these are below \<open>2^1024\<close> in
  magnitude, and adding one to such a value never leaves that range.
\<close>

function exponent :: "int \<Rightarrow> nat" where
  "exponent m = (if m < 2 ^ 53 then 0 else Suc (exponent (m div 2)))"
  by pat_completeness auto
termination
  by (relation "measure nat") auto

declare exponent.simps [simp del]

definition round_to_double :: "int \<Rightarrow> int" where
  "round_to_double m =
     (let a = \<bar>m\<bar>;
          u = 2 ^ exponent a;
          q = a div u;
          r = a mod u;
          q' = (if 2 * r < u then q
                else if u < 2 * r then q + 1
                else if even q then q
                else q + 1)
      in sgn m * (q' * u))"

text \<open>\<open>a + b\<close> on numbers.\<close>

definition js_add :: "int \<Rightarrow> int \<Rightarrow> int" where
  "js_add a b = round_to_double (a + b)"

section \<open>The validation stage: check\_room\<close>

text \<open>
  check\_room.ts, lines 13 to 36. The handler reads \<open>context.options.room\<close> and the joined
  rooms, and returns \<open>STOP\<close> with a notice as \<open>context.message\<close> or \<open>CONTINUE\<close> with
  \<open>context.options.room\<close> set. The third branch reads \<open>room.roomName\<close>; it is reached
  with a room only, since the first two cover \<open>room == null\<close>.
\<close>

definition check_room ::
  "World \<Rightarrow> Context \<Rightarrow> error + (ChainMiddlewareRunStatus \<times> Context \<times> event list)" where
  "check_room world context =
     (let rooms = getAllJoinedConversationRoom world in
      if opt_room context = None \<and> length rooms > 0 then
        (case index_opt rooms (random_floor world (length rooms)) of
           None \<Rightarrow> Inl TypeError
         | Some r \<Rightarrow>
             Inr (CONTINUE, context\<lparr>opt_room := Some r\<rparr>,
                  [SwitchConversationRoom (ByName (roomName r)),
                   Send (txt_random_switched @ roomName r)]))
      else if opt_room context = None \<and> length rooms = 0 then
        Inr (STOP, context\<lparr>message := Some (MsgString txt_no_joined_room)\<rparr>, [])
      else
        (case opt_room context of
           None \<Rightarrow> Inl TypeError
         | Some r \<Rightarrow>
             if \<not> list_all (\<lambda>searchRoom. roomName searchRoom = roomName r
                                   \<or> roomId searchRoom = roomId r) rooms
             then Inr (STOP,
                       context\<lparr>message :=
                         Some (MsgString (txt_not_joined @ roomName r @ txt_full_stop))\<rparr>, [])
             else Inr (CONTINUE, context\<lparr>opt_room := Some r\<rparr>, [])))"

section \<open>Reading the message: read\_chat\_message\<close>

text \<open>
  read\_chat\_message.ts, lines 6 to 31. A handler returns a control signal or a string.
  The loop \<open>for (const element of message)\<close> runs over the elements of an array, or over
  the characters of a string; a character is a string and has no property \<open>type\<close>.
  \<open>result\<close> holds what was pushed: \<open>attrs["content"]\<close> may be \<open>undefined\<close> (\<open>None\<close>),
  which \<open>join\<close> renders as the empty string.
\<close>

datatype handler_result = Status ChainMiddlewareRunStatus | Text string

datatype item = ElementItem Element | CharItem char

fun items_of :: "message \<Rightarrow> item list" where
  "items_of (MsgString s) = map CharItem s"
| "items_of (MsgStringObject s) = map CharItem s"
| "items_of (MsgElements es) = map ElementItem es"

fun item_type :: "item \<Rightarrow> string option" where
  "item_type (ElementItem e) = Some (elem_type e)"
| "item_type (CharItem c) = None"

fun item_attr :: "item \<Rightarrow> string \<Rightarrow> string option" where
  "item_attr (ElementItem e) k = attrs e k"
| "item_attr (CharItem c) k = None"

fun instanceof_String :: "message \<Rightarrow> bool" where
  "instanceof_String (MsgStringObject s) = True"
| "instanceof_String (MsgString s) = False"
| "instanceof_String (MsgElements es) = False"

fun read_loop :: "item list \<Rightarrow> string option list \<Rightarrow> string option list" where
  "read_loop [] result = result"
| "read_loop (element # rest) result =
     (if item_type element = Some ''text'' then
        read_loop rest (result @ [item_attr element ''content''])
      else if item_type element = Some ''at'' then
        (case item_attr element ''name'' of
           None \<Rightarrow> read_loop rest result
         | Some name \<Rightarrow>
             if name \<noteq> [] then read_loop rest (result @ [Some (''@'' @ name)])
             else read_loop rest result)
      else read_loop rest result)"

text \<open>\<open>result.join("")\<close>.\<close>

definition join_empty :: "string option list \<Rightarrow> string" where
  "join_empty result = concat (map (\<lambda>x. case x of None \<Rightarrow> [] | Some s \<Rightarrow> s) result)"

definition read_chat_message :: "Session \<Rightarrow> Context \<Rightarrow> handler_result" where
  "read_chat_message session context =
     (let msg = (case message context of
                   Some m \<Rightarrow> m
                 | None \<Rightarrow> MsgElements (elements session)) in
      if opt_message context \<noteq> None \<or> instanceof_String msg then Status SKIPPED
      else Text (join_empty (read_loop (items_of msg) [])))"

text \<open>
  Modelled from the spec: the pipeline executor (chains/chain) is not among the source
  files. Section 4.2 of the specification: a handler's control signal is taken as it is,
  and "A handler may alternatively return a plain string, which is sugar for set context
  message to this string and emit STOP".
\<close>

definition executor_result ::
  "Context \<Rightarrow> handler_result \<Rightarrow> ChainMiddlewareRunStatus \<times> Context" where
  "executor_result context r =
     (case r of
        Status s \<Rightarrow> (s, context)
      | Text t \<Rightarrow> (STOP, context\<lparr>message := Some (MsgString t)\<rparr>))"


section \<open>The resolution stage: resolve\_room\<close>

text \<open>
  resolve\_room.ts, lines 24 to 229. The handler keeps the local variable \<open>joinRoom\<close>,
  the context and (here) the trace of effects so far; it either returns or goes on to the
  next block. Each block of the source is one function on this state.
\<close>

datatype progress =
    Returned ChainMiddlewareRunStatus Context "event list"
  | Running "ConversationRoom option" Context "event list"

text \<open>Lines 32 to 46: the conditional chain that computes \<open>needContinue\<close>.\<close>

definition needContinue :: "Config \<Rightarrow> Session \<Rightarrow> Context \<Rightarrow> bool" where
  "needContinue config session context =
     (if isDirect session \<and> allowPrivate config \<and>
         (command context \<noteq> None \<or> privateChatWithoutCommand config) then True
      else if appel session \<and> allowAtReply config then True
      else if startsWith (content session) (botName config) \<and> isNickname config then True
      else command context \<noteq> None)"

text \<open>
  Lines 31 to 74: chatting by room name. \<open>context.message\<close> is cast to a string and
  split; \<open>split\<close> exists on strings only, so any other message raises. When there is more
  than one piece, \<open>shift\<close> removes the first one, which is the name asked for.
  \<open>splitContent.concat(' ')\<close> is the array with one more element.
  \<open>message_text\<close> is the string that \<open>split\<close> is called on, if there is one.
\<close>

definition message_text :: "Context \<Rightarrow> string option" where
  "message_text context =
     (case message context of
        Some (MsgString s) \<Rightarrow> Some s
      | Some (MsgStringObject s) \<Rightarrow> Some s
      | Some (MsgElements es) \<Rightarrow> None
      | None \<Rightarrow> None)"

definition chat_with_room_name ::
  "Config \<Rightarrow> Session \<Rightarrow> World \<Rightarrow> ConversationRoom option \<Rightarrow> Context \<Rightarrow> event list
     \<Rightarrow> error + progress" where
  "chat_with_room_name config session world joinRoom context evs =
     (if allowChatWithRoomName config then
        (let nc = needContinue config session context in
         case message_text context of
           None \<Rightarrow> Inl TypeError
         | Some str \<Rightarrow>
             (let splitContent = split_space str;
                  matchedRoom =
                    (if length splitContent > 1
                     then queryJoinedConversationRoom world (Some (hd splitContent))
                     else None);
                  shifted =
                    (if length splitContent > 1 then tl splitContent else splitContent)
              in if matchedRoom = None \<and> \<not> nc then Inr (Returned STOP context evs)
                 else Inr (Running matchedRoom
                        (context\<lparr>opt_inputMessage :=
                            Some (transform world (shifted @ ['' '']))\<rparr>) evs)))
      else Inr (Running joinRoom context evs))"

text \<open>Lines 84 to 109: the choice among the joined rooms (\<open>joinedRooms\<close> is not empty).\<close>

definition owned_private :: "Session \<Rightarrow> ConversationRoom \<Rightarrow> bool" where
  "owned_private session r =
     (visibility r = Private \<and> roomMasterId r = userId session)"

definition owned_template_clone :: "Session \<Rightarrow> ConversationRoom \<Rightarrow> bool" where
  "owned_template_clone session r =
     (visibility r = Template_clone \<and> roomMasterId r = userId session)"

definition is_template_clone :: "ConversationRoom \<Rightarrow> bool" where
  "is_template_clone r = (visibility r = Template_clone)"

definition pick_joined_room ::
  "Config \<Rightarrow> Session \<Rightarrow> World \<Rightarrow> ConversationRoom list \<Rightarrow> ConversationRoom option" where
  "pick_joined_room config session world joinedRooms =
     (let joinRoom =
            (case find (owned_private session) joinedRooms of
               Some r \<Rightarrow> Some r
             | None \<Rightarrow> find (owned_template_clone session) joinedRooms)
      in if autoCreateRoomFromUser config \<noteq> True \<and> joinRoom = None then
           (case find is_template_clone joinedRooms of
              Some r \<Rightarrow> Some r
            | None \<Rightarrow> index_opt joinedRooms (random_floor world (length joinedRooms)))
         else joinRoom)"

text \<open>
  Lines 76 to 117. After the choice, \<open>joinRoom.roomId\<close> is read whatever the choice
  gave: on \<open>undefined\<close> the read raises a TypeError.
\<close>

definition join_joined_room ::
  "Config \<Rightarrow> Session \<Rightarrow> World \<Rightarrow> ConversationRoom option \<Rightarrow> Context \<Rightarrow> event list
     \<Rightarrow> error + progress" where
  "join_joined_room config session world joinRoom context evs =
     (if joinRoom = None then
        (let joinedRooms = getAllJoinedConversationRoom world in
         if length joinedRooms > 0 then
           (case pick_joined_room config session world joinedRooms of
              None \<Rightarrow> Inl TypeError
            | Some r \<Rightarrow>
                Inr (Running (Some r) context
                      (evs @ [SwitchConversationRoom (ById (roomId r)),
                              LogSuccess (txt_for_user @ userId session @ txt_auto_switched
                                          @ roomName r @ txt_full_stop)])))
         else Inr (Running joinRoom context evs))
      else Inr (Running joinRoom context evs))"

text \<open>\<open>(context.command?.length ?? 0) < 1\<close>.\<close>

definition no_command :: "Context \<Rightarrow> bool" where
  "no_command context =
     ((case command context of None \<Rightarrow> 0 | Some c \<Rightarrow> length c) < 1)"

text \<open>Lines 119 to 131: the public room.\<close>

definition join_public_room ::
  "Config \<Rightarrow> Session \<Rightarrow> World \<Rightarrow> ConversationRoom option \<Rightarrow> Context \<Rightarrow> event list
     \<Rightarrow> error + progress" where
  "join_public_room config session world joinRoom context evs =
     (if joinRoom = None \<and> autoCreateRoomFromUser config \<noteq> True \<and> \<not> isDirect session
         \<and> no_command context then
        (case queryPublicConversationRoom world of
           None \<Rightarrow> Inr (Running None context evs)
         | Some r \<Rightarrow>
             Inr (Running (Some r) context
                   (evs @ [LogSuccess (txt_for_user @ userId session
                             @ txt_auto_switched_public @ roomName r @ txt_full_stop)])))
      else Inr (Running joinRoom context evs))"

text \<open>
  Lines 158 to 164 and 177 to 183: the name the new room is given, before the suffix.
  In a group chat \<open>session.event.guild.name\<close> is read first, which raises when the event
  has no guild.
\<close>

definition display_name :: "Session \<Rightarrow> error + string" where
  "display_name session =
     (if isDirect session then
        Inr (case username session of Some n \<Rightarrow> n | None \<Rightarrow> userId session)
      else
        (case guild session of
           None \<Rightarrow> Inl TypeError
         | Some g \<Rightarrow>
             Inr (case guild_name g of
                    Some n \<Rightarrow> n
                  | None \<Rightarrow> (case username session of
                               Some n \<Rightarrow> n
                             | None \<Rightarrow> guild_id g))))"

text \<open>
  Lines 133 to 193: cloning the template room. Both branches compute the same name
  before the suffix, and nothing is performed before it is computed. The new id is
  \<open>(await getMaxConversationRoomId(ctx)) + 1\<close>, a sum of numbers.
\<close>

definition create_from_template ::
  "Config \<Rightarrow> Session \<Rightarrow> World \<Rightarrow> ConversationRoom option \<Rightarrow> Context \<Rightarrow> event list
     \<Rightarrow> error + progress" where
  "create_from_template config session world joinRoom context evs =
     (if joinRoom = None \<and> no_command context then
        (case getTemplateConversationRoom world of
           None \<Rightarrow> Inr (Returned SKIPPED context evs)
         | Some templateRoom \<Rightarrow>
             (case display_name session of
                Inl e \<Rightarrow> Inl e
              | Inr n \<Rightarrow>
                  if autoCreateRoomFromUser config then
                    (let cloneRoom = templateRoom
                           \<lparr>conversationId := uuidv4 world,
                            roomMasterId := userId session,
                            visibility := Private,
                            roomId := js_add (getMaxConversationRoomId world) 1,
                            roomName := n @ txt_room_suffix\<rparr>
                     in Inr (Running (Some cloneRoom) context
                          (evs @ [LogSuccess (txt_for_user @ userId session
                                    @ txt_auto_created @ roomName cloneRoom @ txt_full_stop),
                                  CreateConversationRoom cloneRoom])))
                  else
                    (let cloneRoom = templateRoom
                           \<lparr>conversationId := uuidv4 world,
                            roomMasterId := userId session,
                            visibility := Template_clone,
                            roomId := js_add (getMaxConversationRoomId world) 1,
                            roomName := n @ txt_clone_room_suffix\<rparr>
                     in Inr (Running (Some cloneRoom) context
                          (evs @ [LogSuccess (txt_for_user @ userId session
                                    @ txt_auto_created_clone @ roomName cloneRoom
                                    @ txt_full_stop),
                                  CreateConversationRoom cloneRoom])))))
      else Inr (Running joinRoom context evs))"

text \<open>
  Lines 195 to 224: a template clone with \<open>autoUpdate\<close> follows the configuration. The
  result is the room after the three assignments and the effects of the block.
\<close>

definition sync_template_clone :: "Config \<Rightarrow> ConversationRoom \<Rightarrow> ConversationRoom \<times> event list" where
  "sync_template_clone config r =
     (if visibility r = Template_clone \<and> autoUpdate r = True then
        (let needUpdate =
               (preset r \<noteq> defaultPreset config \<or> chatMode r \<noteq> defaultChatMode config);
             cleared =
               (if needUpdate then []
                else if model r \<noteq> defaultModel config then [ClearCache r]
                else []);
             r' = r\<lparr>model := defaultModel config,
                     preset := defaultPreset config,
                     chatMode := defaultChatMode config\<rparr>
         in (r', cleared @
                 (if needUpdate
                  then [Upsert r', ClearChatHistory r',
                        LogDebug (txt_template_detected @ roomName r' @ txt_config_changed)]
                  else [])))
      else (r, []))"

text \<open>Lines 195 to 228: the last block and the return.\<close>

definition store_room ::
  "Config \<Rightarrow> ConversationRoom option \<Rightarrow> Context \<Rightarrow> event list
     \<Rightarrow> ChainMiddlewareRunStatus \<times> Context \<times> event list" where
  "store_room config joinRoom context evs =
     (case joinRoom of
        None \<Rightarrow> (CONTINUE, context\<lparr>opt_room := None\<rparr>, evs)
      | Some r \<Rightarrow>
          (let (r', evs') = sync_template_clone config r
           in (CONTINUE, context\<lparr>opt_room := Some r'\<rparr>, evs @ evs')))"

text \<open>Sequencing: a block that returned or raised ends the handler.\<close>

definition and_then ::
  "error + progress \<Rightarrow> (ConversationRoom option \<Rightarrow> Context \<Rightarrow> event list \<Rightarrow> error + progress)
     \<Rightarrow> error + progress" where
  "and_then p f =
     (case p of
        Inl e \<Rightarrow> Inl e
      | Inr (Returned s context evs) \<Rightarrow> Inr (Returned s context evs)
      | Inr (Running joinRoom context evs) \<Rightarrow> f joinRoom context evs)"

text \<open>Lines 25 to 193: everything up to the room the handler adopts.\<close>

definition adopt_room :: "Config \<Rightarrow> Session \<Rightarrow> Context \<Rightarrow> World \<Rightarrow> error + progress" where
  "adopt_room config session context world =
     and_then
       (and_then
          (and_then
             (chat_with_room_name config session world
                (queryJoinedConversationRoom world (opt_room_resolve_name context)) context [])
             (join_joined_room config session world))
          (join_public_room config session world))
       (create_from_template config session world)"

definition resolve_room ::
  "Config \<Rightarrow> Session \<Rightarrow> Context \<Rightarrow> World
     \<Rightarrow> error + (ChainMiddlewareRunStatus \<times> Context \<times> event list)" where
  "resolve_room config session context world =
     (case adopt_room config session context world of
        Inl e \<Rightarrow> Inl e
      | Inr (Returned s context' evs) \<Rightarrow> Inr (s, context', evs)
      | Inr (Running joinRoom context' evs) \<Rightarrow> Inr (store_room config joinRoom context' evs))"


section \<open>Auxiliary facts\<close>

lemma index_opt_nth: "i < length xs \<Longrightarrow> index_opt xs i = Some (xs ! i)"
proof (induction xs i rule: index_opt.induct)
  case (1 i)
  then show ?case by simp
next
  case (2 x xs)
  show ?case by simp
next
  case (3 x xs i)
  then show ?case by simp
qed

lemma read_loop_chars: "read_loop (map CharItem s) acc = acc"
  by (induction s arbitrary: acc) simp_all





section \<open>Examples\<close>

text \<open>Concrete rooms, sessions and configurations, on which the theorems are run.\<close>

definition room_private :: ConversationRoom where
  "room_private =
     \<lparr>roomId = 1, roomName = ''A'', conversationId = ''c-1'', roomMasterId = ''u1'',
      visibility = Private, preset = ''sydney'', model = ''gpt-3'', chatMode = ''chat'',
      autoUpdate = False\<rparr>"

definition room_clone :: ConversationRoom where
  "room_clone =
     \<lparr>roomId = 2, roomName = ''B'', conversationId = ''c-2'', roomMasterId = ''u1'',
      visibility = Template_clone, preset = ''sydney'', model = ''gpt-3'',
      chatMode = ''chat'', autoUpdate = True\<rparr>"

definition room_public :: ConversationRoom where
  "room_public =
     \<lparr>roomId = 3, roomName = ''C'', conversationId = ''c-3'', roomMasterId = ''u2'',
      visibility = Public, preset = ''sydney'', model = ''gpt-3'', chatMode = ''chat'',
      autoUpdate = False\<rparr>"

definition config_plain :: Config where
  "config_plain =
     \<lparr>allowChatWithRoomName = False, allowPrivate = True,
      privateChatWithoutCommand = True, allowAtReply = True, botName = ''luna'',
      isNickname = True, autoCreateRoomFromUser = False, defaultPreset = ''chatgpt'',
      defaultModel = ''gpt-4'', defaultChatMode = ''chat''\<rparr>"

definition config_chat_strict :: Config where
  "config_chat_strict = config_plain\<lparr>allowChatWithRoomName := True, allowPrivate := False\<rparr>"

definition session_u1 :: Session where
  "session_u1 =
     \<lparr>isDirect = True, userId = ''u1'', username = Some ''Ann'', appel = False,
      content = ''hello there'', guild = None, elements = []\<rparr>"

definition context_hello :: Context where
  "context_hello =
     \<lparr>command = None, message = Some (MsgString ''hello there''),
      opt_room_resolve_name = None, opt_room = None, opt_inputMessage = None,
      opt_message = None\<rparr>"

definition world_of :: "ConversationRoom list \<Rightarrow> World" where
  "world_of rooms =
     \<lparr>queryJoinedConversationRoom = (\<lambda>n. None),
      getAllJoinedConversationRoom = rooms,
      queryPublicConversationRoom = None,
      getTemplateConversationRoom = Some room_clone,
      getMaxConversationRoomId = 3,
      uuidv4 = ''c-4'',
      random_floor = (\<lambda>n. 0),
      transform = concat\<rparr>"


section \<open>Facts about the blocks of resolve\_room\<close>

lemma find_Some_member: "find P xs = Some x \<Longrightarrow> x \<in> set xs \<and> P x"
  by (induction xs) (auto split: if_splits)

lemma find_None_none: "find P xs = None \<Longrightarrow> x \<in> set xs \<Longrightarrow> \<not> P x"
  by (induction xs) (auto split: if_splits)

text \<open>Chatting by room name performs no effect of the trace.\<close>

lemma chat_with_room_name_trace:
  assumes "chat_with_room_name config session world joinRoom context evs
             = Inr (Running joinRoom' context' evs')"
  shows "evs' = evs"
  using assms
  by (auto simp: chat_with_room_name_def Let_def split: if_splits option.splits)

text \<open>With a room in hand, the public room and the template are not looked at.\<close>

lemma join_public_room_Some:
  "join_public_room config session world (Some r) context evs
     = Inr (Running (Some r) context evs)"
  by (simp add: join_public_room_def)

lemma create_from_template_Some:
  "create_from_template config session world (Some r) context evs
     = Inr (Running (Some r) context evs)"
  by (simp add: create_from_template_def)

lemma join_joined_room_pick:
  assumes "getAllJoinedConversationRoom world \<noteq> []"
  shows "join_joined_room config session world None context evs =
     (case pick_joined_room config session world (getAllJoinedConversationRoom world) of
        None \<Rightarrow> Inl TypeError
      | Some r \<Rightarrow>
          Inr (Running (Some r) context
                (evs @ [SwitchConversationRoom (ById (roomId r)),
                        LogSuccess (txt_for_user @ userId session @ txt_auto_switched
                                    @ roomName r @ txt_full_stop)])))"
  using assms by (simp add: join_joined_room_def)

text \<open>
  A run that reaches line 76 without a room, for a user with joined rooms: the choice
  decides the run.
\<close>

lemma adopt_room_joined:
  assumes "chat_with_room_name config session world
             (queryJoinedConversationRoom world (opt_room_resolve_name context)) context []
           = Inr (Running None context' evs)"
    and "getAllJoinedConversationRoom world \<noteq> []"
  shows "adopt_room config session context world =
     (case pick_joined_room config session world (getAllJoinedConversationRoom world) of
        None \<Rightarrow> Inl TypeError
      | Some r \<Rightarrow>
          Inr (Running (Some r) context'
                (evs @ [SwitchConversationRoom (ById (roomId r)),
                        LogSuccess (txt_for_user @ userId session @ txt_auto_switched
                                    @ roomName r @ txt_full_stop)])))"
  using assms
  by (simp add: adopt_room_def and_then_def join_joined_room_pick
        join_public_room_Some create_from_template_Some split: option.splits)

lemma resolve_room_adopted:
  assumes "adopt_room config session context world = Inr (Running (Some r) context' evs)"
  shows "resolve_room config session context world =
     Inr (CONTINUE, context'\<lparr>opt_room := Some (fst (sync_template_clone config r))\<rparr>,
          evs @ snd (sync_template_clone config r))"
  using assms by (simp add: resolve_room_def store_room_def split: prod.splits)

lemma sync_template_clone_other:
  "visibility r \<noteq> Template_clone \<Longrightarrow> sync_template_clone config r = (r, [])"
  by (simp add: sync_template_clone_def)

text \<open>The effects up to the adoption of a room are switches, creations and log lines.\<close>

fun adoption_event :: "event \<Rightarrow> bool" where
  "adoption_event (SwitchConversationRoom k) = True"
| "adoption_event (CreateConversationRoom r) = True"
| "adoption_event (LogSuccess t) = True"
| "adoption_event (ClearCache r) = False"
| "adoption_event (Upsert r) = False"
| "adoption_event (ClearChatHistory r) = False"
| "adoption_event (Send t) = False"
| "adoption_event (LogDebug t) = False"

fun cache_cleared :: "event \<Rightarrow> bool" where
  "cache_cleared (ClearCache r) = True"
| "cache_cleared e = False"

fun upserted :: "event \<Rightarrow> bool" where
  "upserted (Upsert r) = True"
| "upserted e = False"

fun history_cleared :: "event \<Rightarrow> bool" where
  "history_cleared (ClearChatHistory r) = True"
| "history_cleared e = False"

lemma adoption_event_filters:
  assumes "list_all adoption_event evs"
  shows "filter cache_cleared evs = [] \<and> filter upserted evs = []
       \<and> filter history_cleared evs = []"
  using assms
proof (induction evs)
  case Nil
  show ?case by simp
next
  case (Cons e evs)
  then show ?case by (cases e) simp_all
qed

lemma chat_with_room_name_adoption:
  assumes "chat_with_room_name config session world joinRoom context evs
             = Inr (Running joinRoom' context' evs')"
    and "list_all adoption_event evs"
  shows "list_all adoption_event evs'"
  using assms chat_with_room_name_trace by blast

lemma join_joined_room_adoption:
  assumes "join_joined_room config session world joinRoom context evs
             = Inr (Running joinRoom' context' evs')"
    and "list_all adoption_event evs"
  shows "list_all adoption_event evs'"
  using assms
  by (auto simp: join_joined_room_def Let_def split: if_splits option.splits)

lemma join_public_room_adoption:
  assumes "join_public_room config session world joinRoom context evs
             = Inr (Running joinRoom' context' evs')"
    and "list_all adoption_event evs"
  shows "list_all adoption_event evs'"
  using assms
  by (auto simp: join_public_room_def split: if_splits option.splits)

lemma create_from_template_adoption:
  assumes "create_from_template config session world joinRoom context evs
             = Inr (Running joinRoom' context' evs')"
    and "list_all adoption_event evs"
  shows "list_all adoption_event evs'"
  using assms
  by (auto simp: create_from_template_def Let_def split: if_splits option.splits sum.splits)

lemma and_then_Running:
  assumes "and_then p f = Inr (Running j c evs)"
  shows "\<exists>j0 c0 evs0. p = Inr (Running j0 c0 evs0) \<and> f j0 c0 evs0 = Inr (Running j c evs)"
  using assms
  by (auto simp: and_then_def split: sum.splits progress.splits)

lemma adopt_room_adoption:
  assumes "adopt_room config session context world = Inr (Running joinRoom context' evs)"
  shows "list_all adoption_event evs"
proof -
  from assms obtain j3 c3 e3 where
    s3: "and_then (and_then
           (chat_with_room_name config session world
              (queryJoinedConversationRoom world (opt_room_resolve_name context)) context [])
           (join_joined_room config session world))
         (join_public_room config session world) = Inr (Running j3 c3 e3)"
    and s4: "create_from_template config session world j3 c3 e3
               = Inr (Running joinRoom context' evs)"
    unfolding adopt_room_def by (blast dest: and_then_Running)
  from s3 obtain j2 c2 e2 where
    s2: "and_then
           (chat_with_room_name config session world
              (queryJoinedConversationRoom world (opt_room_resolve_name context)) context [])
           (join_joined_room config session world) = Inr (Running j2 c2 e2)"
    and s3': "join_public_room config session world j2 c2 e2 = Inr (Running j3 c3 e3)"
    by (blast dest: and_then_Running)
  from s2 obtain j1 c1 e1 where
    s1: "chat_with_room_name config session world
           (queryJoinedConversationRoom world (opt_room_resolve_name context)) context []
         = Inr (Running j1 c1 e1)"
    and s2': "join_joined_room config session world j1 c1 e1 = Inr (Running j2 c2 e2)"
    by (blast dest: and_then_Running)
  have "list_all adoption_event e1"
    using chat_with_room_name_adoption [OF s1] by simp
  then have "list_all adoption_event e2"
    by (rule join_joined_room_adoption [OF s2'])
  then have "list_all adoption_event e3"
    by (rule join_public_room_adoption [OF s3'])
  then show ?thesis
    by (rule create_from_template_adoption [OF s4])
qed


section \<open>Claims about the choice among the joined rooms\<close>

lemma pick_joined_room_private:
  assumes "find (owned_private session) joinedRooms = Some r"
  shows "pick_joined_room config session world joinedRooms = Some r"
  using assms by (simp add: pick_joined_room_def)

lemma pick_joined_room_clone:
  assumes "find (owned_private session) joinedRooms = None"
    and "find (owned_template_clone session) joinedRooms = Some r"
  shows "pick_joined_room config session world joinedRooms = Some r"
  using assms by (simp add: pick_joined_room_def)

lemma pick_joined_room_not_owned:
  assumes "find (owned_private session) joinedRooms = None"
    and "find (owned_template_clone session) joinedRooms = None"
  shows "pick_joined_room config session world joinedRooms =
     (if autoCreateRoomFromUser config then None
      else (case find is_template_clone joinedRooms of
              Some r \<Rightarrow> Some r
            | None \<Rightarrow> index_opt joinedRooms (random_floor world (length joinedRooms))))"
  using assms by (simp add: pick_joined_room_def)

text \<open>
  Step 2 of the resolution stage as the specification words it (section 4.3): the room
  picked is a joined room, and it is (a) a private room of the user's own if there is one,
  else (b) a template clone of the user's own if there is one, else, only with
  auto-create-from-user disabled, (c) a template clone if there is one, else (d) any
  joined room.
\<close>

definition priority_pick ::
  "Config \<Rightarrow> Session \<Rightarrow> ConversationRoom list \<Rightarrow> ConversationRoom \<Rightarrow> bool" where
  "priority_pick config session joinedRooms r =
     (r \<in> set joinedRooms \<and>
      (if \<exists>x\<in>set joinedRooms. visibility x = Private \<and> roomMasterId x = userId session
       then visibility r = Private \<and> roomMasterId r = userId session
       else if \<exists>x\<in>set joinedRooms.
                 visibility x = Template_clone \<and> roomMasterId x = userId session
       then visibility r = Template_clone \<and> roomMasterId r = userId session
       else if autoCreateRoomFromUser config then False
       else if \<exists>x\<in>set joinedRooms. visibility x = Template_clone
       then visibility r = Template_clone
       else True))"

lemma find_none_of:
  assumes "\<forall>x\<in>set xs. \<not> P x"
  shows "find P xs = None"
  using assms by (induction xs) simp_all

text \<open>
  C1, as the code has it. A run of resolve\_room that does not return at line 65 and
  reaches line 76 with no room resolved from the names, for a user whose joined rooms
  are not empty, chooses as follows.
  \<^item> When \<open>autoCreateRoomFromUser\<close> is disabled, or the user has joined a private room or
    a template clone of their own, the run adopts a room \<open>r\<close> that the priority order
    allows: it is what the source's choice returns, in case (d) it is the joined room at
    the index drawn (any index within the array: the distribution of the draw is not part
    of the model), the run switches the active room to \<open>r\<close> and returns \<open>CONTINUE\<close>
    with \<open>r\<close> stored (after the template synchronisation of lines 195 to 224). In
    particular, when the user has joined a private room of their own, the room stored is
    a private room of their own, unchanged.
  \<^item> When \<open>autoCreateRoomFromUser\<close> is enabled and the user has joined neither a private
    room nor a template clone of their own, the choice selects none of the joined rooms:
    cases (c) and (d) are not tried, and the priority order allows no room.
\<close>

theorem resolve_room_joined_priority:
  assumes reach: "chat_with_room_name config session world
             (queryJoinedConversationRoom world (opt_room_resolve_name context)) context []
           = Inr (Running None context' evs)"
    and joined: "getAllJoinedConversationRoom world = joinedRooms"
    and nonempty: "joinedRooms \<noteq> []"
    and draw: "random_floor world (length joinedRooms) < length joinedRooms"
  shows "((\<not> autoCreateRoomFromUser config
           \<or> (\<exists>x\<in>set joinedRooms. roomMasterId x = userId session
                 \<and> (visibility x = Private \<or> visibility x = Template_clone)))
          \<longrightarrow>
          (\<exists>r. priority_pick config session joinedRooms r
             \<and> pick_joined_room config session world joinedRooms = Some r
             \<and> ((\<forall>x\<in>set joinedRooms. visibility x \<noteq> Template_clone
                     \<and> \<not> (visibility x = Private \<and> roomMasterId x = userId session))
                  \<longrightarrow> r = joinedRooms ! random_floor world (length joinedRooms))
             \<and> resolve_room config session context world =
                 Inr (CONTINUE,
                      context'\<lparr>opt_room := Some (fst (sync_template_clone config r))\<rparr>,
                      evs @ [SwitchConversationRoom (ById (roomId r)),
                             LogSuccess (txt_for_user @ userId session @ txt_auto_switched
                                         @ roomName r @ txt_full_stop)]
                          @ snd (sync_template_clone config r))
             \<and> ((\<exists>x\<in>set joinedRooms.
                     visibility x = Private \<and> roomMasterId x = userId session)
                  \<longrightarrow> visibility r = Private \<and> roomMasterId r = userId session
                      \<and> resolve_room config session context world =
                          Inr (CONTINUE, context'\<lparr>opt_room := Some r\<rparr>,
                               evs @ [SwitchConversationRoom (ById (roomId r)),
                                      LogSuccess (txt_for_user @ userId session
                                                  @ txt_auto_switched @ roomName r
                                                  @ txt_full_stop)]))))
       \<and> ((autoCreateRoomFromUser config
            \<and> (\<forall>x\<in>set joinedRooms. \<not> (roomMasterId x = userId session
                   \<and> (visibility x = Private \<or> visibility x = Template_clone))))
           \<longrightarrow> pick_joined_room config session world joinedRooms = None
               \<and> (\<forall>x\<in>set joinedRooms. \<not> priority_pick config session joinedRooms x))"
proof (intro conjI impI)
  assume allowed: "\<not> autoCreateRoomFromUser config
           \<or> (\<exists>x\<in>set joinedRooms. roomMasterId x = userId session
                 \<and> (visibility x = Private \<or> visibility x = Template_clone))"
  let ?pick = "pick_joined_room config session world joinedRooms"
  let ?d = "joinedRooms ! random_floor world (length joinedRooms)"
  have d_in: "?d \<in> set joinedRooms"
    using draw by simp
  have d_idx: "index_opt joinedRooms (random_floor world (length joinedRooms)) = Some ?d"
    using draw by (rule index_opt_nth)
  have chosen: "\<exists>r. ?pick = Some r \<and> priority_pick config session joinedRooms r
      \<and> ((\<forall>x\<in>set joinedRooms. visibility x \<noteq> Template_clone
              \<and> \<not> (visibility x = Private \<and> roomMasterId x = userId session))
           \<longrightarrow> r = ?d)"
  proof (cases "find (owned_private session) joinedRooms")
    case (Some r)
    have "?pick = Some r"
      using Some by (rule pick_joined_room_private)
    moreover have "r \<in> set joinedRooms \<and> owned_private session r"
      using Some by (rule find_Some_member)
    ultimately show ?thesis
      by (auto simp: priority_pick_def owned_private_def)
  next
    case None
    then have no_a: "\<not> (\<exists>x\<in>set joinedRooms.
                        visibility x = Private \<and> roomMasterId x = userId session)"
      by (auto simp: owned_private_def dest: find_None_none)
    show ?thesis
    proof (cases "find (owned_template_clone session) joinedRooms")
      case (Some r)
      have "?pick = Some r"
        using None Some by (rule pick_joined_room_clone)
      moreover have "r \<in> set joinedRooms \<and> owned_template_clone session r"
        using Some by (rule find_Some_member)
      ultimately show ?thesis
        using no_a by (auto simp: priority_pick_def owned_template_clone_def)
    next
      case none_b: None
      then have no_b: "\<not> (\<exists>x\<in>set joinedRooms.
                          visibility x = Template_clone \<and> roomMasterId x = userId session)"
        by (auto simp: owned_template_clone_def dest: find_None_none)
      have manual: "\<not> autoCreateRoomFromUser config"
        using allowed no_a no_b by auto
      show ?thesis
      proof (cases "find is_template_clone joinedRooms")
        case (Some r)
        have "?pick = Some r"
          using None none_b manual Some by (simp add: pick_joined_room_not_owned)
        moreover have "r \<in> set joinedRooms \<and> is_template_clone r"
          using Some by (rule find_Some_member)
        ultimately show ?thesis
          using no_a no_b manual by (auto simp: priority_pick_def is_template_clone_def)
      next
        case none_c: None
        then have no_c: "\<not> (\<exists>x\<in>set joinedRooms. visibility x = Template_clone)"
          by (auto simp: is_template_clone_def dest: find_None_none)
        have "?pick = Some ?d"
          using None none_b manual none_c d_idx by (simp add: pick_joined_room_not_owned)
        moreover have "priority_pick config session joinedRooms ?d"
          using no_a no_b no_c manual d_in by (auto simp: priority_pick_def)
        ultimately show ?thesis
          by blast
      qed
    qed
  qed
  then obtain r where pick: "?pick = Some r"
    and ok: "priority_pick config session joinedRooms r"
    and last: "(\<forall>x\<in>set joinedRooms. visibility x \<noteq> Template_clone
              \<and> \<not> (visibility x = Private \<and> roomMasterId x = userId session))
           \<longrightarrow> r = ?d"
    by blast
  have adopted: "adopt_room config session context world =
      Inr (Running (Some r) context'
            (evs @ [SwitchConversationRoom (ById (roomId r)),
                    LogSuccess (txt_for_user @ userId session @ txt_auto_switched
                                @ roomName r @ txt_full_stop)]))"
    using adopt_room_joined [OF reach] joined nonempty pick by simp
  have run: "resolve_room config session context world =
          Inr (CONTINUE, context'\<lparr>opt_room := Some (fst (sync_template_clone config r))\<rparr>,
               evs @ [SwitchConversationRoom (ById (roomId r)),
                      LogSuccess (txt_for_user @ userId session @ txt_auto_switched
                                  @ roomName r @ txt_full_stop)]
                   @ snd (sync_template_clone config r))"
    using resolve_room_adopted [OF adopted] by simp
  have particular:
    "(\<exists>x\<in>set joinedRooms. visibility x = Private \<and> roomMasterId x = userId session)
           \<longrightarrow> visibility r = Private \<and> roomMasterId r = userId session
               \<and> resolve_room config session context world =
                   Inr (CONTINUE, context'\<lparr>opt_room := Some r\<rparr>,
                        evs @ [SwitchConversationRoom (ById (roomId r)),
                               LogSuccess (txt_for_user @ userId session @ txt_auto_switched
                                           @ roomName r @ txt_full_stop)])"
  proof
    assume own: "\<exists>x\<in>set joinedRooms. visibility x = Private \<and> roomMasterId x = userId session"
    with ok have p: "visibility r = Private \<and> roomMasterId r = userId session"
      by (simp add: priority_pick_def)
    then have "sync_template_clone config r = (r, [])"
      by (simp add: sync_template_clone_other)
    with run p show "visibility r = Private \<and> roomMasterId r = userId session
               \<and> resolve_room config session context world =
                   Inr (CONTINUE, context'\<lparr>opt_room := Some r\<rparr>,
                        evs @ [SwitchConversationRoom (ById (roomId r)),
                               LogSuccess (txt_for_user @ userId session @ txt_auto_switched
                                           @ roomName r @ txt_full_stop)])"
      by simp
  qed
  show "\<exists>r. priority_pick config session joinedRooms r
             \<and> pick_joined_room config session world joinedRooms = Some r
             \<and> ((\<forall>x\<in>set joinedRooms. visibility x \<noteq> Template_clone
                     \<and> \<not> (visibility x = Private \<and> roomMasterId x = userId session))
                  \<longrightarrow> r = joinedRooms ! random_floor world (length joinedRooms))
             \<and> resolve_room config session context world =
                 Inr (CONTINUE,
                      context'\<lparr>opt_room := Some (fst (sync_template_clone config r))\<rparr>,
                      evs @ [SwitchConversationRoom (ById (roomId r)),
                             LogSuccess (txt_for_user @ userId session @ txt_auto_switched
                                         @ roomName r @ txt_full_stop)]
                          @ snd (sync_template_clone config r))
             \<and> ((\<exists>x\<in>set joinedRooms.
                     visibility x = Private \<and> roomMasterId x = userId session)
                  \<longrightarrow> visibility r = Private \<and> roomMasterId r = userId session
                      \<and> resolve_room config session context world =
                          Inr (CONTINUE, context'\<lparr>opt_room := Some r\<rparr>,
                               evs @ [SwitchConversationRoom (ById (roomId r)),
                                      LogSuccess (txt_for_user @ userId session
                                                  @ txt_auto_switched @ roomName r
                                                  @ txt_full_stop)]))"
    using ok pick last run particular by blast
next
  assume none: "autoCreateRoomFromUser config
            \<and> (\<forall>x\<in>set joinedRooms. \<not> (roomMasterId x = userId session
                   \<and> (visibility x = Private \<or> visibility x = Template_clone)))"
  then have a: "find (owned_private session) joinedRooms = None"
    by (intro find_none_of) (auto simp: owned_private_def)
  from none have b: "find (owned_template_clone session) joinedRooms = None"
    by (intro find_none_of) (auto simp: owned_template_clone_def)
  show "pick_joined_room config session world joinedRooms = None"
    using a b none by (simp add: pick_joined_room_not_owned)
next
  assume none: "autoCreateRoomFromUser config
            \<and> (\<forall>x\<in>set joinedRooms. \<not> (roomMasterId x = userId session
                   \<and> (visibility x = Private \<or> visibility x = Template_clone)))"
  then show "\<forall>x\<in>set joinedRooms. \<not> priority_pick config session joinedRooms x"
    by (auto simp: priority_pick_def)
qed

theorem resolve_room_joined_priority_witness:
  "chat_with_room_name config_plain session_u1
       (world_of [room_public, room_clone, room_private])
       (queryJoinedConversationRoom (world_of [room_public, room_clone, room_private])
          (opt_room_resolve_name context_hello)) context_hello []
     = Inr (Running None context_hello [])
   \<and> \<not> autoCreateRoomFromUser config_plain
   \<and> resolve_room config_plain session_u1 context_hello
       (world_of [room_public, room_clone, room_private])
     = Inr (CONTINUE, context_hello\<lparr>opt_room := Some room_private\<rparr>,
            [SwitchConversationRoom (ById 1),
             LogSuccess (txt_for_user @ ''u1'' @ txt_auto_switched @ ''A'' @ txt_full_stop)])
   \<and> chat_with_room_name (config_plain\<lparr>autoCreateRoomFromUser := True\<rparr>) session_u1
       (world_of [room_public])
       (queryJoinedConversationRoom (world_of [room_public])
          (opt_room_resolve_name context_hello)) context_hello []
     = Inr (Running None context_hello [])
   \<and> autoCreateRoomFromUser (config_plain\<lparr>autoCreateRoomFromUser := True\<rparr>)
   \<and> roomMasterId room_public \<noteq> userId session_u1
   \<and> pick_joined_room (config_plain\<lparr>autoCreateRoomFromUser := True\<rparr>) session_u1
       (world_of [room_public]) [room_public] = None"
proof -
  let ?rooms = "[room_public, room_clone, room_private]"
  let ?world = "world_of ?rooms"
  have reach: "chat_with_room_name config_plain session_u1 ?world
       (queryJoinedConversationRoom ?world (opt_room_resolve_name context_hello))
       context_hello []
     = Inr (Running None context_hello [])"
    by (simp add: chat_with_room_name_def config_plain_def world_of_def)
  have joined: "getAllJoinedConversationRoom ?world = ?rooms"
    by (simp add: world_of_def)
  have nonempty: "?rooms \<noteq> []"
    by simp
  have draw: "random_floor ?world (length ?rooms) < length ?rooms"
    by (simp add: world_of_def)
  have manual: "\<not> autoCreateRoomFromUser config_plain"
    by (simp add: config_plain_def)
  then have allowed: "\<not> autoCreateRoomFromUser config_plain
           \<or> (\<exists>x\<in>set ?rooms. roomMasterId x = userId session_u1
                 \<and> (visibility x = Private \<or> visibility x = Template_clone))"
    by (rule disjI1)
  have own: "\<exists>x\<in>set ?rooms. visibility x = Private \<and> roomMasterId x = userId session_u1"
    by (simp add: room_private_def session_u1_def)
  have pick: "pick_joined_room config_plain session_u1 ?world ?rooms = Some room_private"
    by (simp add: pick_joined_room_def owned_private_def owned_template_clone_def
          room_public_def room_clone_def room_private_def session_u1_def)
  note both = resolve_room_joined_priority [OF reach joined nonempty draw]
  from both [THEN conjunct1, THEN mp, OF allowed]
  obtain r where picked: "pick_joined_room config_plain session_u1 ?world ?rooms = Some r"
    and particular:
      "(\<exists>x\<in>set ?rooms. visibility x = Private \<and> roomMasterId x = userId session_u1)
         \<longrightarrow> visibility r = Private \<and> roomMasterId r = userId session_u1
             \<and> resolve_room config_plain session_u1 context_hello ?world =
                 Inr (CONTINUE, context_hello\<lparr>opt_room := Some r\<rparr>,
                      [] @ [SwitchConversationRoom (ById (roomId r)),
                            LogSuccess (txt_for_user @ userId session_u1 @ txt_auto_switched
                                        @ roomName r @ txt_full_stop)])"
    by blast
  from picked pick have r: "r = room_private"
    by simp
  from particular own
  have "resolve_room config_plain session_u1 context_hello ?world =
          Inr (CONTINUE, context_hello\<lparr>opt_room := Some r\<rparr>,
               [] @ [SwitchConversationRoom (ById (roomId r)),
                     LogSuccess (txt_for_user @ userId session_u1 @ txt_auto_switched
                                 @ roomName r @ txt_full_stop)])"
    by (rule mp [THEN conjunct2, THEN conjunct2])
  then have "resolve_room config_plain session_u1 context_hello ?world =
          Inr (CONTINUE, context_hello\<lparr>opt_room := Some room_private\<rparr>,
               [SwitchConversationRoom (ById (roomId room_private)),
                LogSuccess (txt_for_user @ userId session_u1 @ txt_auto_switched
                            @ roomName room_private @ txt_full_stop)])"
    unfolding r by simp
  then have run: "resolve_room config_plain session_u1 context_hello ?world =
          Inr (CONTINUE, context_hello\<lparr>opt_room := Some room_private\<rparr>,
            [SwitchConversationRoom (ById 1),
             LogSuccess (txt_for_user @ ''u1'' @ txt_auto_switched @ ''A'' @ txt_full_stop)])"
    by (simp add: room_private_def session_u1_def)
  let ?config2 = "config_plain\<lparr>autoCreateRoomFromUser := True\<rparr>"
  let ?world2 = "world_of [room_public]"
  have reach2: "chat_with_room_name ?config2 session_u1 ?world2
       (queryJoinedConversationRoom ?world2 (opt_room_resolve_name context_hello))
       context_hello []
     = Inr (Running None context_hello [])"
    by (simp add: chat_with_room_name_def config_plain_def world_of_def)
  have joined2: "getAllJoinedConversationRoom ?world2 = [room_public]"
    by (simp add: world_of_def)
  have nonempty2: "[room_public] \<noteq> []"
    by simp
  have draw2: "random_floor ?world2 (length [room_public]) < length [room_public]"
    by (simp add: world_of_def)
  have auto_create: "autoCreateRoomFromUser ?config2"
    by simp
  have other: "roomMasterId room_public \<noteq> userId session_u1"
    by (simp add: room_public_def session_u1_def)
  then have none: "autoCreateRoomFromUser ?config2
            \<and> (\<forall>x\<in>set [room_public]. \<not> (roomMasterId x = userId session_u1
                   \<and> (visibility x = Private \<or> visibility x = Template_clone)))"
    by simp
  from resolve_room_joined_priority [OF reach2 joined2 nonempty2 draw2,
         THEN conjunct2, THEN mp, OF none]
  have pick2: "pick_joined_room ?config2 session_u1 ?world2 [room_public] = None"
    by (rule conjunct1)
  from reach manual run reach2 auto_create other pick2 show ?thesis
    by blast
qed

text \<open>
  The claim as written fails in two ways. A run that returns at line 65 selects
  nothing: with chatting by room name enabled and no trigger, the user who has joined a
  public room, a template clone of their own and a private room of their own gets
  \<open>STOP\<close>, with no room stored and no switch, although no room was resolved from the
  names. And with \<open>autoCreateRoomFromUser\<close> enabled, the user whose only joined room is
  another user's public room gets no room either: the run raises.
\<close>

theorem resolve_room_joined_priority_counterexample:
  "queryJoinedConversationRoom (world_of [room_public, room_clone, room_private])
       (opt_room_resolve_name context_hello) = None
   \<and> getAllJoinedConversationRoom (world_of [room_public, room_clone, room_private])
       = [room_public, room_clone, room_private]
   \<and> resolve_room config_chat_strict session_u1 context_hello
       (world_of [room_public, room_clone, room_private])
       = Inr (STOP, context_hello, [])
   \<and> opt_room context_hello = None
   \<and> getAllJoinedConversationRoom (world_of [room_public]) = [room_public]
   \<and> resolve_room (config_plain\<lparr>autoCreateRoomFromUser := True\<rparr>) session_u1 context_hello
       (world_of [room_public]) = Inl TypeError"
proof -
  let ?world = "world_of [room_public, room_clone, room_private]"
  have nc: "\<not> needContinue config_chat_strict session_u1 context_hello"
    by (simp add: needContinue_def config_chat_strict_def config_plain_def session_u1_def
          context_hello_def)
  have str: "message_text context_hello = Some ''hello there''"
    by (simp add: message_text_def context_hello_def)
  have step: "chat_with_room_name config_chat_strict session_u1 ?world
          (queryJoinedConversationRoom ?world (opt_room_resolve_name context_hello))
          context_hello []
        = Inr (Returned STOP context_hello [])"
    using nc str
    by (simp add: chat_with_room_name_def Let_def config_chat_strict_def world_of_def)
  have stop: "resolve_room config_chat_strict session_u1 context_hello ?world
       = Inr (STOP, context_hello, [])"
    using step by (simp add: resolve_room_def adopt_room_def and_then_def)
  let ?config2 = "config_plain\<lparr>autoCreateRoomFromUser := True\<rparr>"
  let ?world2 = "world_of [room_public]"
  have reach2: "chat_with_room_name ?config2 session_u1 ?world2
       (queryJoinedConversationRoom ?world2 (opt_room_resolve_name context_hello))
       context_hello []
     = Inr (Running None context_hello [])"
    by (simp add: chat_with_room_name_def config_plain_def world_of_def)
  have nonempty2: "getAllJoinedConversationRoom ?world2 \<noteq> []"
    by (simp add: world_of_def)
  have pick2: "pick_joined_room ?config2 session_u1 ?world2
                 (getAllJoinedConversationRoom ?world2) = None"
    by (simp add: pick_joined_room_def owned_private_def owned_template_clone_def
          world_of_def room_public_def session_u1_def)
  have "adopt_room ?config2 session_u1 context_hello ?world2 = Inl TypeError"
    using adopt_room_joined [OF reach2 nonempty2] pick2 by simp
  then have raise: "resolve_room ?config2 session_u1 context_hello ?world2 = Inl TypeError"
    by (simp add: resolve_room_def)
  show ?thesis
    using stop raise by (simp add: world_of_def context_hello_def)
qed

text \<open>
  C8. A run that reaches line 76 without a room, with \<open>autoCreateRoomFromUser\<close> enabled,
  for a user whose joined rooms are not empty but hold no private room and no template
  clone of the user's own: the choice leaves \<open>joinRoom\<close> undefined, nothing guards the
  read of \<open>joinRoom.roomId\<close> in the call of \<open>switchConversationRoom\<close>, and the handler
  raises. The witness is such a run.
\<close>

theorem resolve_room_pick_unguarded:
  assumes reach: "chat_with_room_name config session world
             (queryJoinedConversationRoom world (opt_room_resolve_name context)) context []
           = Inr (Running None context' evs)"
    and auto_create: "autoCreateRoomFromUser config"
    and nonempty: "getAllJoinedConversationRoom world \<noteq> []"
    and not_owned: "\<forall>r\<in>set (getAllJoinedConversationRoom world).
           \<not> (visibility r = Private \<and> roomMasterId r = userId session)
         \<and> \<not> (visibility r = Template_clone \<and> roomMasterId r = userId session)"
  shows "pick_joined_room config session world (getAllJoinedConversationRoom world) = None
       \<and> join_joined_room config session world None context' evs = Inl TypeError
       \<and> resolve_room config session context world = Inl TypeError"
proof -
  let ?rooms = "getAllJoinedConversationRoom world"
  have a: "find (owned_private session) ?rooms = None"
  proof (cases "find (owned_private session) ?rooms")
    case None
    then show ?thesis .
  next
    case (Some r)
    then have "r \<in> set ?rooms \<and> owned_private session r"
      by (rule find_Some_member)
    with not_owned show ?thesis
      by (auto simp: owned_private_def)
  qed
  have b: "find (owned_template_clone session) ?rooms = None"
  proof (cases "find (owned_template_clone session) ?rooms")
    case None
    then show ?thesis .
  next
    case (Some r)
    then have "r \<in> set ?rooms \<and> owned_template_clone session r"
      by (rule find_Some_member)
    with not_owned show ?thesis
      by (auto simp: owned_template_clone_def)
  qed
  have pick: "pick_joined_room config session world ?rooms = None"
    using a b auto_create by (simp add: pick_joined_room_not_owned)
  have step: "join_joined_room config session world None context' evs = Inl TypeError"
    using nonempty pick by (simp add: join_joined_room_pick)
  have "adopt_room config session context world = Inl TypeError"
    using adopt_room_joined [OF reach nonempty] pick by simp
  then have "resolve_room config session context world = Inl TypeError"
    by (simp add: resolve_room_def)
  with pick step show ?thesis
    by simp
qed

theorem resolve_room_pick_unguarded_witness:
  "autoCreateRoomFromUser (config_plain\<lparr>autoCreateRoomFromUser := True\<rparr>)
   \<and> getAllJoinedConversationRoom (world_of [room_public]) = [room_public]
   \<and> visibility room_public = Public
   \<and> pick_joined_room (config_plain\<lparr>autoCreateRoomFromUser := True\<rparr>) session_u1
        (world_of [room_public]) [room_public] = None
   \<and> resolve_room (config_plain\<lparr>autoCreateRoomFromUser := True\<rparr>) session_u1 context_hello
        (world_of [room_public]) = Inl TypeError"
proof -
  let ?config = "config_plain\<lparr>autoCreateRoomFromUser := True\<rparr>"
  let ?world = "world_of [room_public]"
  have reach: "chat_with_room_name ?config session_u1 ?world
       (queryJoinedConversationRoom ?world (opt_room_resolve_name context_hello))
       context_hello []
     = Inr (Running None context_hello [])"
    by (simp add: chat_with_room_name_def config_plain_def world_of_def)
  have auto_create: "autoCreateRoomFromUser ?config"
    by simp
  have joined: "getAllJoinedConversationRoom ?world = [room_public]"
    by (simp add: world_of_def)
  have nonempty: "getAllJoinedConversationRoom ?world \<noteq> []"
    by (simp add: world_of_def)
  have vis: "visibility room_public = Public"
    by (simp add: room_public_def)
  have not_owned: "\<forall>r\<in>set (getAllJoinedConversationRoom ?world).
           \<not> (visibility r = Private \<and> roomMasterId r = userId session_u1)
         \<and> \<not> (visibility r = Template_clone \<and> roomMasterId r = userId session_u1)"
    using vis by (simp add: joined)
  from resolve_room_pick_unguarded [OF reach auto_create nonempty not_owned]
  have "pick_joined_room ?config session_u1 ?world [room_public] = None
       \<and> resolve_room ?config session_u1 context_hello ?world = Inl TypeError"
    by (simp add: joined)
  with auto_create joined vis show ?thesis
    by blast
qed


section \<open>Claims about chatting by room name\<close>

definition config_chat :: Config where
  "config_chat = config_plain\<lparr>allowChatWithRoomName := True\<rparr>"

definition world_hint :: World where
  "world_hint = (world_of [room_private])
     \<lparr>queryJoinedConversationRoom :=
        (\<lambda>n. if n = Some ''A'' then Some room_private else None)\<rparr>"

definition context_hint :: Context where
  "context_hint = context_hello\<lparr>opt_room_resolve_name := Some ''A''\<rparr>"

text \<open>
  C9. With \<open>allowChatWithRoomName\<close> enabled, a run that does not return at line 65 leaves
  lines 31 to 74 with \<open>joinRoom\<close> equal to \<open>matchedRoom\<close>, the answer for the first piece
  of the message: whatever room the first call of \<open>queryJoinedConversationRoom\<close> (with
  \<open>context.options.room_resolve.name\<close>) found is overwritten, so the block gives the same
  result for any other room in its place. When the message has fewer than two pieces, or
  the first piece names no joined room, \<open>joinRoom\<close> is undefined afterwards although
  \<open>needContinue\<close> held.
\<close>

theorem chat_with_room_name_overwrites:
  assumes enabled: "allowChatWithRoomName config"
    and go: "chat_with_room_name config session world
               (queryJoinedConversationRoom world (opt_room_resolve_name context)) context []
             = Inr (Running joinRoom' context' evs')"
  shows "\<exists>str. message_text context = Some str
       \<and> joinRoom' = (if length (split_space str) > 1
                      then queryJoinedConversationRoom world (Some (hd (split_space str)))
                      else None)
       \<and> (\<forall>other. chat_with_room_name config session world other context []
                    = Inr (Running joinRoom' context' evs'))
       \<and> ((length (split_space str) < 2
            \<or> queryJoinedConversationRoom world (Some (hd (split_space str))) = None)
           \<longrightarrow> joinRoom' = None \<and> needContinue config session context)"
proof -
  from enabled go obtain str where str: "message_text context = Some str"
    by (cases "message_text context") (auto simp: chat_with_room_name_def Let_def)
  let ?matched = "if length (split_space str) > 1
                  then queryJoinedConversationRoom world (Some (hd (split_space str)))
                  else None"
  have matched: "joinRoom' = ?matched"
    using enabled go str
    by (auto simp: chat_with_room_name_def Let_def split: if_splits)
  have any: "chat_with_room_name config session world other context []
               = Inr (Running joinRoom' context' evs')" for other
    using enabled go str
    by (simp add: chat_with_room_name_def Let_def)
  have held: "?matched = None \<longrightarrow> needContinue config session context"
    using enabled go str
    by (auto simp: chat_with_room_name_def Let_def split: if_splits)
  have rest: "(length (split_space str) < 2
            \<or> queryJoinedConversationRoom world (Some (hd (split_space str))) = None)
           \<longrightarrow> joinRoom' = None \<and> needContinue config session context"
    using matched held by auto
  show ?thesis
  proof (intro exI conjI allI)
    show "message_text context = Some str"
      by (fact str)
    show "joinRoom' = ?matched"
      by (fact matched)
    show "chat_with_room_name config session world other context []
            = Inr (Running joinRoom' context' evs')" for other
      by (fact any)
    show "(length (split_space str) < 2
            \<or> queryJoinedConversationRoom world (Some (hd (split_space str))) = None)
           \<longrightarrow> joinRoom' = None \<and> needContinue config session context"
      by (fact rest)
  qed
qed

theorem chat_with_room_name_overwrites_witness:
  "allowChatWithRoomName config_chat
   \<and> queryJoinedConversationRoom world_hint (opt_room_resolve_name context_hint)
       = Some room_private
   \<and> message_text context_hint = Some ''hello there''
   \<and> queryJoinedConversationRoom world_hint (Some (hd (split_space ''hello there''))) = None
   \<and> chat_with_room_name config_chat session_u1 world_hint
        (queryJoinedConversationRoom world_hint (opt_room_resolve_name context_hint))
        context_hint []
       = Inr (Running None (context_hint\<lparr>opt_inputMessage := Some ''there ''\<rparr>) [])
   \<and> chat_with_room_name config_chat session_u1 world_hint None context_hint []
       = Inr (Running None (context_hint\<lparr>opt_inputMessage := Some ''there ''\<rparr>) [])
   \<and> needContinue config_chat session_u1 context_hint"
proof -
  have enabled: "allowChatWithRoomName config_chat"
    by (simp add: config_chat_def)
  have hint: "queryJoinedConversationRoom world_hint (opt_room_resolve_name context_hint)
       = Some room_private"
    by (simp add: world_hint_def context_hint_def)
  have str: "message_text context_hint = Some ''hello there''"
    by (simp add: message_text_def context_hint_def context_hello_def)
  have first: "queryJoinedConversationRoom world_hint (Some (hd (split_space ''hello there'')))
       = None"
    by (simp add: world_hint_def)
  have nc: "needContinue config_chat session_u1 context_hint"
    by (simp add: needContinue_def config_chat_def config_plain_def session_u1_def)
  have go: "chat_with_room_name config_chat session_u1 world_hint
        (queryJoinedConversationRoom world_hint (opt_room_resolve_name context_hint))
        context_hint []
       = Inr (Running None (context_hint\<lparr>opt_inputMessage := Some ''there ''\<rparr>) [])"
    using enabled str first nc
    by (simp add: chat_with_room_name_def Let_def world_hint_def world_of_def)
  from chat_with_room_name_overwrites [OF enabled go]
  have "chat_with_room_name config_chat session_u1 world_hint None context_hint []
       = Inr (Running None (context_hint\<lparr>opt_inputMessage := Some ''there ''\<rparr>) [])"
    by blast
  with enabled hint str first go nc show ?thesis
    by blast
qed

text \<open>
  C3, as the code has it. With \<open>allowChatWithRoomName\<close> enabled and the message a string,
  when the first piece of the message matches no joined room and none of the triggers
  holds (a direct message with private chat allowed and a command or
  \<open>privateChatWithoutCommand\<close>; a mention of the bot with \<open>allowAtReply\<close>; a message that
  starts with the bot's name, with \<open>isNickname\<close>; a command), the handler returns at line
  65 with \<open>STOP\<close> (not \<open>SKIPPED\<close>): the context is as it was and no effect was performed,
  so none of the later blocks ran.
\<close>

theorem resolve_room_stops_without_trigger:
  assumes enabled: "allowChatWithRoomName config"
    and str: "message_text context = Some str"
    and no_match: "(if length (split_space str) > 1
                    then queryJoinedConversationRoom world (Some (hd (split_space str)))
                    else None) = None"
    and no_private: "\<not> (isDirect session \<and> allowPrivate config
                         \<and> (command context \<noteq> None \<or> privateChatWithoutCommand config))"
    and no_mention: "\<not> (appel session \<and> allowAtReply config)"
    and no_nickname: "\<not> (startsWith (content session) (botName config) \<and> isNickname config)"
    and no_cmd: "command context = None"
  shows "resolve_room config session context world = Inr (STOP, context, [])"
proof -
  have nc: "\<not> needContinue config session context"
    using no_private no_mention no_nickname no_cmd
    by (simp add: needContinue_def)
  have "chat_with_room_name config session world
          (queryJoinedConversationRoom world (opt_room_resolve_name context)) context []
        = Inr (Returned STOP context [])"
    using enabled str no_match nc
    by (simp add: chat_with_room_name_def Let_def)
  then have "adopt_room config session context world = Inr (Returned STOP context [])"
    by (simp add: adopt_room_def and_then_def)
  then show ?thesis
    by (simp add: resolve_room_def)
qed

theorem resolve_room_stops_without_trigger_witness:
  "allowChatWithRoomName config_chat_strict
   \<and> message_text context_hello = Some ''hello there''
   \<and> command context_hello = None
   \<and> resolve_room config_chat_strict session_u1 context_hello (world_of [room_private])
       = Inr (STOP, context_hello, [])"
proof -
  let ?world = "world_of [room_private]"
  have enabled: "allowChatWithRoomName config_chat_strict"
    by (simp add: config_chat_strict_def)
  have str: "message_text context_hello = Some ''hello there''"
    by (simp add: message_text_def context_hello_def)
  have no_match: "(if length (split_space ''hello there'') > 1
                   then queryJoinedConversationRoom ?world
                          (Some (hd (split_space ''hello there'')))
                   else None) = None"
    by (simp add: world_of_def)
  have no_private: "\<not> (isDirect session_u1 \<and> allowPrivate config_chat_strict
       \<and> (command context_hello \<noteq> None \<or> privateChatWithoutCommand config_chat_strict))"
    by (simp add: config_chat_strict_def)
  have no_mention: "\<not> (appel session_u1 \<and> allowAtReply config_chat_strict)"
    by (simp add: session_u1_def)
  have no_nickname: "\<not> (startsWith (content session_u1) (botName config_chat_strict)
                          \<and> isNickname config_chat_strict)"
    by (simp add: session_u1_def config_chat_strict_def config_plain_def)
  have no_cmd: "command context_hello = None"
    by (simp add: context_hello_def)
  from resolve_room_stops_without_trigger
         [OF enabled str no_match no_private no_mention no_nickname no_cmd]
  have "resolve_room config_chat_strict session_u1 context_hello ?world
       = Inr (STOP, context_hello, [])" .
  with enabled str no_cmd show ?thesis
    by blast
qed

text \<open>
  The claim as written, with \<open>SKIPPED\<close>, fails: a direct message "hello there" from a
  user, with private chat not allowed, no mention, no nickname and no command, whose
  first piece names no joined room, ends the handler with \<open>STOP\<close>.
\<close>

theorem resolve_room_skipped_counterexample:
  "allowChatWithRoomName config_chat_strict
   \<and> queryJoinedConversationRoom (world_of [room_private]) (Some ''hello'') = None
   \<and> \<not> needContinue config_chat_strict session_u1 context_hello
   \<and> resolve_room config_chat_strict session_u1 context_hello (world_of [room_private])
       = Inr (STOP, context_hello, [])
   \<and> resolve_room config_chat_strict session_u1 context_hello (world_of [room_private])
       \<noteq> Inr (SKIPPED, context_hello, [])"
proof -
  have nc: "\<not> needContinue config_chat_strict session_u1 context_hello"
    by (simp add: needContinue_def config_chat_strict_def config_plain_def session_u1_def
          context_hello_def)
  have str: "message_text context_hello = Some ''hello there''"
    by (simp add: message_text_def context_hello_def)
  have step: "chat_with_room_name config_chat_strict session_u1 (world_of [room_private])
          (queryJoinedConversationRoom (world_of [room_private])
             (opt_room_resolve_name context_hello)) context_hello []
        = Inr (Returned STOP context_hello [])"
    using nc str
    by (simp add: chat_with_room_name_def Let_def config_chat_strict_def world_of_def)
  have "resolve_room config_chat_strict session_u1 context_hello (world_of [room_private])
       = Inr (STOP, context_hello, [])"
    using step by (simp add: resolve_room_def adopt_room_def and_then_def)
  then show ?thesis
    using nc by (simp add: config_chat_strict_def world_of_def)
qed


section \<open>Claims about the room created from the template\<close>
















section \<open>Claims about the template synchronisation\<close>

definition room_clone_synced :: ConversationRoom where
  "room_clone_synced =
     room_clone\<lparr>model := ''gpt-4'', preset := ''chatgpt'', chatMode := ''chat''\<rparr>"

lemma adopt_room_example:
  assumes "visibility r = Template_clone" and "roomMasterId r = ''u1''"
  shows "adopt_room config_plain session_u1 context_hello (world_of [r]) =
     Inr (Running (Some r) context_hello
           [SwitchConversationRoom (ById (roomId r)),
            LogSuccess (txt_for_user @ ''u1'' @ txt_auto_switched @ roomName r
                        @ txt_full_stop)])"
proof -
  have reach: "chat_with_room_name config_plain session_u1 (world_of [r])
       (queryJoinedConversationRoom (world_of [r]) (opt_room_resolve_name context_hello))
       context_hello []
     = Inr (Running None context_hello [])"
    by (simp add: chat_with_room_name_def config_plain_def world_of_def)
  have nonempty: "getAllJoinedConversationRoom (world_of [r]) \<noteq> []"
    by (simp add: world_of_def)
  have "pick_joined_room config_plain session_u1 (world_of [r]) [r] = Some r"
    using assms
    by (simp add: pick_joined_room_def owned_private_def owned_template_clone_def
          session_u1_def)
  then show ?thesis
    using adopt_room_joined [OF reach nonempty]
    by (simp add: world_of_def session_u1_def)
qed

text \<open>
  C4, as the code has it. In a run that adopts a template clone \<open>r\<close> with \<open>autoUpdate\<close>,
  \<open>clearCache\<close> is called exactly when the stored model differs from
  \<open>config.defaultModel\<close> while the stored preset and chat mode both equal the live
  defaults (the call is the \<open>else if\<close> of the test of preset and chat mode). The call
  is made with the room as stored, before the model is overwritten; the room the run ends
  with has the live model, preset and chat mode in every case. When the preset or the
  chat mode differs, no cache is cleared, whatever the model: the room is written back
  and its chat history is cleared instead.
\<close>

theorem resolve_room_clear_cache:
  assumes adopted: "adopt_room config session context world
                      = Inr (Running (Some r) context' evs)"
    and clone: "visibility r = Template_clone"
    and auto_update: "autoUpdate r"
  shows "\<exists>trace. resolve_room config session context world =
           Inr (CONTINUE,
                context'\<lparr>opt_room := Some (r\<lparr>model := defaultModel config,
                                             preset := defaultPreset config,
                                             chatMode := defaultChatMode config\<rparr>)\<rparr>,
                trace)
       \<and> filter cache_cleared trace =
           (if model r \<noteq> defaultModel config \<and> preset r = defaultPreset config
               \<and> chatMode r = defaultChatMode config
            then [ClearCache r] else [])
       \<and> (model r \<noteq> defaultModel config \<and> preset r = defaultPreset config
             \<and> chatMode r = defaultChatMode config
           \<longrightarrow> trace = evs @ [ClearCache r])
       \<and> (preset r \<noteq> defaultPreset config \<or> chatMode r \<noteq> defaultChatMode config
           \<longrightarrow> trace = evs @
                 [Upsert (r\<lparr>model := defaultModel config,
                            preset := defaultPreset config,
                            chatMode := defaultChatMode config\<rparr>),
                  ClearChatHistory (r\<lparr>model := defaultModel config,
                                      preset := defaultPreset config,
                                      chatMode := defaultChatMode config\<rparr>),
                  LogDebug (txt_template_detected @ roomName r @ txt_config_changed)])"
proof -
  let ?r' = "r\<lparr>model := defaultModel config, preset := defaultPreset config,
               chatMode := defaultChatMode config\<rparr>"
  let ?trace = "evs @ snd (sync_template_clone config r)"
  have quiet: "filter cache_cleared evs = []"
    using adopt_room_adoption [OF adopted] by (simp add: adoption_event_filters)
  have room: "fst (sync_template_clone config r) = ?r'"
    using clone auto_update by (simp add: sync_template_clone_def Let_def)
  have run: "resolve_room config session context world =
           Inr (CONTINUE, context'\<lparr>opt_room := Some ?r'\<rparr>, ?trace)"
    using resolve_room_adopted [OF adopted] room by simp
  have cleared: "filter cache_cleared ?trace =
           (if model r \<noteq> defaultModel config \<and> preset r = defaultPreset config
               \<and> chatMode r = defaultChatMode config
            then [ClearCache r] else [])"
    using clone auto_update quiet by (simp add: sync_template_clone_def Let_def)
  have only_model: "model r \<noteq> defaultModel config \<and> preset r = defaultPreset config
             \<and> chatMode r = defaultChatMode config
           \<longrightarrow> ?trace = evs @ [ClearCache r]"
    using clone auto_update by (simp add: sync_template_clone_def Let_def)
  have drift: "preset r \<noteq> defaultPreset config \<or> chatMode r \<noteq> defaultChatMode config
           \<longrightarrow> ?trace = evs @
                 [Upsert ?r', ClearChatHistory ?r',
                  LogDebug (txt_template_detected @ roomName r @ txt_config_changed)]"
    using clone auto_update by (simp add: sync_template_clone_def Let_def)
  show ?thesis
  proof (intro exI conjI)
    show "resolve_room config session context world =
           Inr (CONTINUE, context'\<lparr>opt_room := Some ?r'\<rparr>, ?trace)"
      by (fact run)
    show "filter cache_cleared ?trace =
           (if model r \<noteq> defaultModel config \<and> preset r = defaultPreset config
               \<and> chatMode r = defaultChatMode config
            then [ClearCache r] else [])"
      by (fact cleared)
    show "model r \<noteq> defaultModel config \<and> preset r = defaultPreset config
             \<and> chatMode r = defaultChatMode config
           \<longrightarrow> ?trace = evs @ [ClearCache r]"
      by (fact only_model)
    show "preset r \<noteq> defaultPreset config \<or> chatMode r \<noteq> defaultChatMode config
           \<longrightarrow> ?trace = evs @
                 [Upsert ?r', ClearChatHistory ?r',
                  LogDebug (txt_template_detected @ roomName r @ txt_config_changed)]"
      by (fact drift)
  qed
qed

definition room_clone_old_model :: ConversationRoom where
  "room_clone_old_model = room_clone\<lparr>preset := ''chatgpt''\<rparr>"

theorem resolve_room_clear_cache_witness:
  "visibility room_clone_old_model = Template_clone
   \<and> autoUpdate room_clone_old_model
   \<and> model room_clone_old_model = ''gpt-3''
   \<and> defaultModel config_plain = ''gpt-4''
   \<and> resolve_room config_plain session_u1 context_hello (world_of [room_clone_old_model]) =
       Inr (CONTINUE, context_hello\<lparr>opt_room := Some room_clone_synced\<rparr>,
            [SwitchConversationRoom (ById 2),
             LogSuccess (txt_for_user @ ''u1'' @ txt_auto_switched @ ''B'' @ txt_full_stop),
             ClearCache room_clone_old_model])"
proof -
  let ?r = room_clone_old_model
  have clone: "visibility ?r = Template_clone"
    by (simp add: room_clone_old_model_def room_clone_def)
  have master: "roomMasterId ?r = ''u1''"
    by (simp add: room_clone_old_model_def room_clone_def)
  have auto_update: "autoUpdate ?r"
    by (simp add: room_clone_old_model_def room_clone_def)
  have m: "model ?r = ''gpt-3''"
    by (simp add: room_clone_old_model_def room_clone_def)
  have d: "defaultModel config_plain = ''gpt-4''"
    by (simp add: config_plain_def)
  have same: "model ?r \<noteq> defaultModel config_plain \<and> preset ?r = defaultPreset config_plain
             \<and> chatMode ?r = defaultChatMode config_plain"
    by (simp add: room_clone_old_model_def room_clone_def config_plain_def)
  have synced: "?r\<lparr>model := defaultModel config_plain, preset := defaultPreset config_plain,
                   chatMode := defaultChatMode config_plain\<rparr> = room_clone_synced"
    by (simp add: room_clone_old_model_def room_clone_synced_def room_clone_def
          config_plain_def)
  have names: "roomId ?r = 2 \<and> roomName ?r = ''B''"
    by (simp add: room_clone_old_model_def room_clone_def)
  note adopted = adopt_room_example [OF clone master]
  from resolve_room_clear_cache [OF adopted clone auto_update]
  obtain trace where
    run: "resolve_room config_plain session_u1 context_hello (world_of [?r]) =
           Inr (CONTINUE,
                context_hello\<lparr>opt_room := Some (?r\<lparr>model := defaultModel config_plain,
                    preset := defaultPreset config_plain,
                    chatMode := defaultChatMode config_plain\<rparr>)\<rparr>,
                trace)"
    and only_model: "model ?r \<noteq> defaultModel config_plain
             \<and> preset ?r = defaultPreset config_plain
             \<and> chatMode ?r = defaultChatMode config_plain
           \<longrightarrow> trace = [SwitchConversationRoom (ById (roomId ?r)),
                  LogSuccess (txt_for_user @ ''u1'' @ txt_auto_switched @ roomName ?r
                              @ txt_full_stop)] @ [ClearCache ?r]"
    by blast
  from only_model same
  have t: "trace = [SwitchConversationRoom (ById (roomId ?r)),
                  LogSuccess (txt_for_user @ ''u1'' @ txt_auto_switched @ roomName ?r
                              @ txt_full_stop)] @ [ClearCache ?r]"
    by (rule mp)
  have "resolve_room config_plain session_u1 context_hello (world_of [?r]) =
       Inr (CONTINUE, context_hello\<lparr>opt_room := Some room_clone_synced\<rparr>,
            [SwitchConversationRoom (ById 2),
             LogSuccess (txt_for_user @ ''u1'' @ txt_auto_switched @ ''B'' @ txt_full_stop),
             ClearCache ?r])"
    using run unfolding t synced by (simp add: names)
  with clone auto_update m d show ?thesis
    by blast
qed

text \<open>
  The claim as written fails when the preset differs as well: the user's template clone
  B (model gpt-3, preset sydney) under the defaults gpt-4 and chatgpt is written back and
  its history cleared, and the trace of the run holds no \<open>clearCache\<close>.
\<close>

theorem resolve_room_clear_cache_counterexample:
  "visibility room_clone = Template_clone
   \<and> autoUpdate room_clone
   \<and> model room_clone \<noteq> defaultModel config_plain
   \<and> preset room_clone \<noteq> defaultPreset config_plain
   \<and> resolve_room config_plain session_u1 context_hello (world_of [room_clone]) =
       Inr (CONTINUE, context_hello\<lparr>opt_room := Some room_clone_synced\<rparr>,
            [SwitchConversationRoom (ById 2),
             LogSuccess (txt_for_user @ ''u1'' @ txt_auto_switched @ ''B'' @ txt_full_stop),
             Upsert room_clone_synced,
             ClearChatHistory room_clone_synced,
             LogDebug (txt_template_detected @ ''B'' @ txt_config_changed)])
   \<and> ClearCache room_clone \<notin> set
            [SwitchConversationRoom (ById 2),
             LogSuccess (txt_for_user @ ''u1'' @ txt_auto_switched @ ''B'' @ txt_full_stop),
             Upsert room_clone_synced,
             ClearChatHistory room_clone_synced,
             LogDebug (txt_template_detected @ ''B'' @ txt_config_changed)]"
proof -
  have clone: "visibility room_clone = Template_clone"
    by (simp add: room_clone_def)
  have master: "roomMasterId room_clone = ''u1''"
    by (simp add: room_clone_def)
  have sync: "sync_template_clone config_plain room_clone =
      (room_clone_synced,
       [Upsert room_clone_synced, ClearChatHistory room_clone_synced,
        LogDebug (txt_template_detected @ ''B'' @ txt_config_changed)])"
    by (simp add: sync_template_clone_def Let_def room_clone_synced_def room_clone_def
          config_plain_def)
  have "resolve_room config_plain session_u1 context_hello (world_of [room_clone]) =
       Inr (CONTINUE, context_hello\<lparr>opt_room := Some room_clone_synced\<rparr>,
            [SwitchConversationRoom (ById (roomId room_clone)),
             LogSuccess (txt_for_user @ ''u1'' @ txt_auto_switched @ roomName room_clone
                         @ txt_full_stop),
             Upsert room_clone_synced,
             ClearChatHistory room_clone_synced,
             LogDebug (txt_template_detected @ ''B'' @ txt_config_changed)])"
    using resolve_room_adopted [OF adopt_room_example [OF clone master]] sync by simp
  then show ?thesis
    by (simp add: room_clone_def config_plain_def)
qed

text \<open>
  C6. A run that adopts a template clone \<open>r\<close> with \<open>autoUpdate\<close> whose stored preset or
  chat mode differs from the live defaults writes the room back with the live model,
  preset and chat mode and clears its chat history, once each. A later run under the same
  configuration that adopts the room as it was written back performs no write-back and
  clears no history.
\<close>

theorem resolve_room_resync_once:
  assumes first: "adopt_room config session context world
                    = Inr (Running (Some r) context' evs)"
    and clone: "visibility r = Template_clone"
    and auto_update: "autoUpdate r"
    and drift: "preset r \<noteq> defaultPreset config \<or> chatMode r \<noteq> defaultChatMode config"
    and persisted: "r' = r\<lparr>model := defaultModel config, preset := defaultPreset config,
                          chatMode := defaultChatMode config\<rparr>"
    and second: "adopt_room config session2 context2 world2
                    = Inr (Running (Some r') context2' evs2)"
  shows "resolve_room config session context world =
           Inr (CONTINUE, context'\<lparr>opt_room := Some r'\<rparr>,
                evs @ [Upsert r', ClearChatHistory r',
                       LogDebug (txt_template_detected @ roomName r' @ txt_config_changed)])
       \<and> model r' = defaultModel config
       \<and> preset r' = defaultPreset config
       \<and> chatMode r' = defaultChatMode config
       \<and> filter upserted
           (evs @ [Upsert r', ClearChatHistory r',
                   LogDebug (txt_template_detected @ roomName r' @ txt_config_changed)])
           = [Upsert r']
       \<and> filter history_cleared
           (evs @ [Upsert r', ClearChatHistory r',
                   LogDebug (txt_template_detected @ roomName r' @ txt_config_changed)])
           = [ClearChatHistory r']
       \<and> resolve_room config session2 context2 world2 =
           Inr (CONTINUE, context2'\<lparr>opt_room := Some r'\<rparr>, evs2)
       \<and> filter upserted evs2 = []
       \<and> filter history_cleared evs2 = []"
proof -
  have sync1: "sync_template_clone config r =
      (r', [Upsert r', ClearChatHistory r',
            LogDebug (txt_template_detected @ roomName r' @ txt_config_changed)])"
    using clone auto_update drift persisted
    by (auto simp: sync_template_clone_def Let_def)
  have run1: "resolve_room config session context world =
           Inr (CONTINUE, context'\<lparr>opt_room := Some r'\<rparr>,
                evs @ [Upsert r', ClearChatHistory r',
                       LogDebug (txt_template_detected @ roomName r' @ txt_config_changed)])"
    using resolve_room_adopted [OF first] sync1 by simp
  have live: "model r' = defaultModel config \<and> preset r' = defaultPreset config
       \<and> chatMode r' = defaultChatMode config"
    using persisted by simp
  have quiet1: "filter upserted evs = [] \<and> filter history_cleared evs = []"
    using adopt_room_adoption [OF first] by (simp add: adoption_event_filters)
  have sync2: "sync_template_clone config r' = (r', [])"
    using clone auto_update persisted by (simp add: sync_template_clone_def Let_def)
  have run2: "resolve_room config session2 context2 world2 =
           Inr (CONTINUE, context2'\<lparr>opt_room := Some r'\<rparr>, evs2)"
    using resolve_room_adopted [OF second] sync2 by simp
  have quiet2: "filter upserted evs2 = [] \<and> filter history_cleared evs2 = []"
    using adopt_room_adoption [OF second] by (simp add: adoption_event_filters)
  show ?thesis
    using run1 live quiet1 run2 quiet2 by simp
qed

theorem resolve_room_resync_once_witness:
  "visibility room_clone = Template_clone
   \<and> autoUpdate room_clone
   \<and> preset room_clone \<noteq> defaultPreset config_plain
   \<and> resolve_room config_plain session_u1 context_hello (world_of [room_clone]) =
       Inr (CONTINUE, context_hello\<lparr>opt_room := Some room_clone_synced\<rparr>,
            [SwitchConversationRoom (ById 2),
             LogSuccess (txt_for_user @ ''u1'' @ txt_auto_switched @ ''B'' @ txt_full_stop),
             Upsert room_clone_synced,
             ClearChatHistory room_clone_synced,
             LogDebug (txt_template_detected @ ''B'' @ txt_config_changed)])
   \<and> resolve_room config_plain session_u1 context_hello (world_of [room_clone_synced]) =
       Inr (CONTINUE, context_hello\<lparr>opt_room := Some room_clone_synced\<rparr>,
            [SwitchConversationRoom (ById 2),
             LogSuccess (txt_for_user @ ''u1'' @ txt_auto_switched @ ''B''
                         @ txt_full_stop)])"
proof -
  have clone: "visibility room_clone = Template_clone"
    by (simp add: room_clone_def)
  have master: "roomMasterId room_clone = ''u1''"
    by (simp add: room_clone_def)
  have auto_update: "autoUpdate room_clone"
    by (simp add: room_clone_def)
  have p: "preset room_clone \<noteq> defaultPreset config_plain"
    by (simp add: room_clone_def config_plain_def)
  then have drift: "preset room_clone \<noteq> defaultPreset config_plain
                  \<or> chatMode room_clone \<noteq> defaultChatMode config_plain"
    by simp
  have persisted: "room_clone_synced =
      room_clone\<lparr>model := defaultModel config_plain, preset := defaultPreset config_plain,
                 chatMode := defaultChatMode config_plain\<rparr>"
    by (simp add: room_clone_synced_def config_plain_def)
  have clone2: "visibility room_clone_synced = Template_clone"
    by (simp add: room_clone_synced_def room_clone_def)
  have master2: "roomMasterId room_clone_synced = ''u1''"
    by (simp add: room_clone_synced_def room_clone_def)
  have names: "roomId room_clone = 2 \<and> roomName room_clone = ''B''
             \<and> roomId room_clone_synced = 2 \<and> roomName room_clone_synced = ''B''"
    by (simp add: room_clone_synced_def room_clone_def)
  note first = adopt_room_example [OF clone master]
  note second = adopt_room_example [OF clone2 master2]
  note both = resolve_room_resync_once
                [OF first clone auto_update drift persisted second]
  from both
  have run1: "resolve_room config_plain session_u1 context_hello (world_of [room_clone]) =
       Inr (CONTINUE, context_hello\<lparr>opt_room := Some room_clone_synced\<rparr>,
            [SwitchConversationRoom (ById (roomId room_clone)),
             LogSuccess (txt_for_user @ ''u1'' @ txt_auto_switched @ roomName room_clone
                         @ txt_full_stop)]
            @ [Upsert room_clone_synced,
               ClearChatHistory room_clone_synced,
               LogDebug (txt_template_detected @ roomName room_clone_synced
                         @ txt_config_changed)])"
    by (rule conjunct1)
  from both
  have run2: "resolve_room config_plain session_u1 context_hello
                (world_of [room_clone_synced]) =
       Inr (CONTINUE, context_hello\<lparr>opt_room := Some room_clone_synced\<rparr>,
            [SwitchConversationRoom (ById (roomId room_clone_synced)),
             LogSuccess (txt_for_user @ ''u1'' @ txt_auto_switched
                         @ roomName room_clone_synced @ txt_full_stop)])"
    by blast
  show ?thesis
    using clone auto_update p run1 run2 by (simp add: names)
qed


section \<open>Claims about read\_chat\_message\<close>

text \<open>
  C10. When \<open>context.options.message\<close> is null and \<open>context.message\<close> is a primitive
  string, read\_chat\_message does not return \<open>SKIPPED\<close>: the test
  \<open>message instanceof String\<close> is false for a primitive. The loop runs over the
  characters and pushes nothing, and the handler returns the empty string. The executor,
  as the specification describes it, then sets the message to the empty string and stops.
\<close>

theorem read_chat_message_primitive_string:
  assumes "opt_message context = None"
    and "message context = Some (MsgString s)"
  shows "read_chat_message session context \<noteq> Status SKIPPED
       \<and> read_loop (items_of (MsgString s)) [] = []
       \<and> read_chat_message session context = Text []
       \<and> executor_result context (read_chat_message session context)
           = (STOP, context\<lparr>message := Some (MsgString [])\<rparr>)"
proof -
  have loop: "read_loop (items_of (MsgString s)) [] = []"
    by (simp add: read_loop_chars)
  have ret: "read_chat_message session context = Text []"
    using assms loop by (simp add: read_chat_message_def join_empty_def)
  show ?thesis
    using loop ret by (simp add: executor_result_def)
qed

theorem read_chat_message_primitive_string_witness:
  "opt_message context_hello = None
   \<and> message context_hello = Some (MsgString ''hello there'')
   \<and> read_chat_message session_u1 context_hello = Text []
   \<and> executor_result context_hello (read_chat_message session_u1 context_hello)
       = (STOP, context_hello\<lparr>message := Some (MsgString [])\<rparr>)"
proof -
  have h1: "opt_message context_hello = None"
    by (simp add: context_hello_def)
  have h2: "message context_hello = Some (MsgString ''hello there'')"
    by (simp add: context_hello_def)
  note run = read_chat_message_primitive_string [OF h1 h2, of session_u1]
  from run have r: "read_chat_message session_u1 context_hello = Text []"
    by blast
  from run have e: "executor_result context_hello (read_chat_message session_u1 context_hello)
       = (STOP, context_hello\<lparr>message := Some (MsgString [])\<rparr>)"
    by blast
  show ?thesis
    using h1 h2 r e by blast
qed

section \<open>Claims about check\_room\<close>

text \<open>
  C7. When \<open>context.options.room\<close> is unset: if the user has joined rooms, check\_room
  takes the joined room at the index \<open>Math.floor(Math.random() * rooms.length)\<close> (an
  index within the array), switches to it, sends the notice and returns \<open>CONTINUE\<close> with
  the room stored; if the user has joined no room, it sets the message to the notice
  "join a room first" and returns \<open>STOP\<close>. The draw is a parameter of the run, so the
  theorem holds for every value it can take; its distribution is not part of the model.
\<close>

theorem check_room_without_room:
  assumes "opt_room context = None"
  shows "(getAllJoinedConversationRoom world \<noteq> []
          \<and> random_floor world (length (getAllJoinedConversationRoom world))
              < length (getAllJoinedConversationRoom world)
          \<longrightarrow> check_room world context =
                Inr (CONTINUE,
                     context\<lparr>opt_room := Some (getAllJoinedConversationRoom world !
                        random_floor world (length (getAllJoinedConversationRoom world)))\<rparr>,
                     [SwitchConversationRoom (ByName (roomName
                        (getAllJoinedConversationRoom world !
                          random_floor world (length (getAllJoinedConversationRoom world))))),
                      Send (txt_random_switched @ roomName
                        (getAllJoinedConversationRoom world !
                          random_floor world (length (getAllJoinedConversationRoom world))))]))
       \<and> (getAllJoinedConversationRoom world = []
          \<longrightarrow> check_room world context =
                Inr (STOP, context\<lparr>message := Some (MsgString txt_no_joined_room)\<rparr>, []))"
proof (intro conjI impI)
  assume a: "getAllJoinedConversationRoom world \<noteq> []
          \<and> random_floor world (length (getAllJoinedConversationRoom world))
              < length (getAllJoinedConversationRoom world)"
  then have "index_opt (getAllJoinedConversationRoom world)
               (random_floor world (length (getAllJoinedConversationRoom world)))
             = Some (getAllJoinedConversationRoom world !
                 random_floor world (length (getAllJoinedConversationRoom world)))"
    by (simp add: index_opt_nth)
  with a assms show "check_room world context =
                Inr (CONTINUE,
                     context\<lparr>opt_room := Some (getAllJoinedConversationRoom world !
                        random_floor world (length (getAllJoinedConversationRoom world)))\<rparr>,
                     [SwitchConversationRoom (ByName (roomName
                        (getAllJoinedConversationRoom world !
                          random_floor world (length (getAllJoinedConversationRoom world))))),
                      Send (txt_random_switched @ roomName
                        (getAllJoinedConversationRoom world !
                          random_floor world (length (getAllJoinedConversationRoom world))))])"
    by (simp add: check_room_def Let_def)
next
  assume "getAllJoinedConversationRoom world = []"
  with assms show "check_room world context =
      Inr (STOP, context\<lparr>message := Some (MsgString txt_no_joined_room)\<rparr>, [])"
    by (simp add: check_room_def)
qed

theorem check_room_without_room_witness:
  "opt_room context_hello = None
   \<and> check_room (world_of [room_public, room_private]) context_hello =
       Inr (CONTINUE, context_hello\<lparr>opt_room := Some room_public\<rparr>,
            [SwitchConversationRoom (ByName ''C''), Send (txt_random_switched @ ''C'')])
   \<and> check_room (world_of []) context_hello =
       Inr (STOP, context_hello\<lparr>message := Some (MsgString txt_no_joined_room)\<rparr>, [])"
proof -
  have h: "opt_room context_hello = None"
    by (simp add: context_hello_def)
  have "check_room (world_of [room_public, room_private]) context_hello =
       Inr (CONTINUE, context_hello\<lparr>opt_room := Some room_public\<rparr>,
            [SwitchConversationRoom (ByName ''C''), Send (txt_random_switched @ ''C'')])"
    using check_room_without_room [OF h, of "world_of [room_public, room_private]"]
    by (simp add: world_of_def room_public_def)
  moreover have "check_room (world_of []) context_hello =
       Inr (STOP, context_hello\<lparr>message := Some (MsgString txt_no_joined_room)\<rparr>, [])"
    using check_room_without_room [OF h, of "world_of []"]
    by (simp add: world_of_def)
  ultimately show ?thesis using h by simp
qed

text \<open>
  C2. With \<open>context.options.room\<close> set, check\_room should continue exactly when the room
  is among the joined rooms. The source tests \<open>rooms.every\<close> where membership needs
  \<open>rooms.some\<close>: a user who has joined room A and room C and asks for A is stopped with
  the notice "you have not joined room A", and a user who has joined no room at all and
  asks for room C is let through.
\<close>

theorem check_room_every_instead_of_some:
  "check_room (world_of [room_private, room_public])
       (context_hello\<lparr>opt_room := Some room_private\<rparr>) =
     Inr (STOP,
          context_hello\<lparr>opt_room := Some room_private,
            message := Some (MsgString (txt_not_joined @ ''A'' @ txt_full_stop))\<rparr>, [])
   \<and> check_room (world_of []) (context_hello\<lparr>opt_room := Some room_public\<rparr>) =
     Inr (CONTINUE, context_hello\<lparr>opt_room := Some room_public\<rparr>, [])"
  by (simp add: check_room_def world_of_def room_private_def room_public_def)


end
